theory Spec2Isabelle
  imports Main "HOL-Library.Signed_Division" "HOL-Library.Log_Nat" "HOL-Library.Sublist"
begin

section \<open>Go values\<close>

subsection \<open>The type \<open>int\<close>\<close>

text \<open>
  Every build target of the Makefile is a 64-bit platform, so Go's \<open>int\<close> has 64 bits.
  An \<open>int\<close> of the program is modelled as an \<open>int\<close> of HOL; the sum computed by
  \<open>interpretLightLevel\<close> and \<open>interpretMoistureLevel\<close> wraps around as the machine
  addition does (\<open>wrap64\<close>), and Go's \<open>/\<close> truncates towards zero (\<open>sdiv\<close>).
\<close>

definition wrap64 :: "int \<Rightarrow> int" where
  "wrap64 x = signed_take_bit 63 x"

definition int64_range :: "int \<Rightarrow> bool" where
  "int64_range x = (- (2 ^ 63) \<le> x \<and> x < 2 ^ 63)"

subsection \<open>The type \<open>float64\<close>\<close>

text \<open>
  An IEEE 754 binary64 value: a finite value (a rational; the representable ones are the
  dyadic rationals with a 53-bit significand), negative zero, the two infinities, or
  not-a-number. \<open>Finite 0\<close> is positive zero. Arithmetic computes the exact rational
  result and rounds it to nearest, ties to even (\<open>round64\<close>), as the hardware does.
\<close>

datatype float64 = Finite rat | NegZero | PosInf | NegInf | NaN

definition pow2 :: "int \<Rightarrow> rat" where
  "pow2 k = (if 0 \<le> k then 2 ^ nat k else 1 / 2 ^ nat (- k))"

definition roundHalfEven :: "rat \<Rightarrow> int" where
  "roundHalfEven q =
     (let f = \<lfloor>q\<rfloor>; d = q - of_int f
      in if d < 1 / 2 then f else if 1 / 2 < d then f + 1 else if even f then f else f + 1)"

text \<open>\<open>ilog2 a\<close> is the integer \<open>e\<close> with \<open>2 ^ e \<le> a < 2 ^ (e + 1)\<close>, for \<open>a > 0\<close>.\<close>

definition ilog2 :: "rat \<Rightarrow> int" where
  "ilog2 a =
     (if 1 \<le> a then bitlen \<lfloor>a\<rfloor> - 1 else - bitlen (\<lceil>1 / a\<rceil> - 1))"

text \<open>
  Rounding of an exact result to binary64: 53 significant bits, the exponent of the last
  bit not below \<open>-1074\<close> (subnormal numbers), underflow to a signed zero, and overflow
  to an infinity when the rounded value \<open>m * 2 ^ q\<close> reaches \<open>2 ^ 1024\<close>, that is when
  \<open>m\<close> has more than \<open>1024 - q\<close> bits.
\<close>

definition round64 :: "rat \<Rightarrow> float64" where
  "round64 r =
     (if r = 0 then Finite 0
      else let a = \<bar>r\<bar>;
               q = max (ilog2 a - 52) (- 1074);
               m = roundHalfEven (a / pow2 q);
               v = of_int m * pow2 q
           in if 1024 < q + bitlen m then (if r < 0 then NegInf else PosInf)
              else if m = 0 then (if r < 0 then NegZero else Finite 0)
              else Finite (if r < 0 then - v else v))"

definition isZero :: "float64 \<Rightarrow> bool" where
  "isZero x = (x = Finite 0 \<or> x = NegZero)"

definition isInf :: "float64 \<Rightarrow> bool" where
  "isInf x = (x = PosInf \<or> x = NegInf)"

fun signBit :: "float64 \<Rightarrow> bool" where
  "signBit (Finite r) = (r < 0)"
| "signBit NegZero = True"
| "signBit PosInf = False"
| "signBit NegInf = True"
| "signBit NaN = False"

fun fval :: "float64 \<Rightarrow> rat" where
  "fval (Finite r) = r"
| "fval x = 0"

definition signedZero :: "bool \<Rightarrow> float64" where
  "signedZero neg = (if neg then NegZero else Finite 0)"

definition signedInf :: "bool \<Rightarrow> float64" where
  "signedInf neg = (if neg then NegInf else PosInf)"

text \<open>The comparison \<open>a < b\<close> of two \<open>float64\<close>: false when either is not-a-number.\<close>

fun flt :: "float64 \<Rightarrow> float64 \<Rightarrow> bool" where
  "flt NaN b = False"
| "flt a NaN = False"
| "flt PosInf b = False"
| "flt a PosInf = True"
| "flt a NegInf = False"
| "flt NegInf b = True"
| "flt a b = (fval a < fval b)"

definition fgt :: "float64 \<Rightarrow> float64 \<Rightarrow> bool" where
  "fgt a b = flt b a"

definition fneg :: "float64 \<Rightarrow> float64" where
  "fneg x =
     (case x of
        Finite r \<Rightarrow> if r = 0 then NegZero else Finite (- r)
      | NegZero \<Rightarrow> Finite 0
      | PosInf \<Rightarrow> NegInf
      | NegInf \<Rightarrow> PosInf
      | NaN \<Rightarrow> NaN)"

definition fadd :: "float64 \<Rightarrow> float64 \<Rightarrow> float64" where
  "fadd a b =
     (if a = NaN \<or> b = NaN then NaN
      else if isInf a then (if isInf b \<and> a \<noteq> b then NaN else a)
      else if isInf b then b
      else if fval a + fval b = 0 then signedZero (signBit a \<and> signBit b)
      else round64 (fval a + fval b))"

definition fsub :: "float64 \<Rightarrow> float64 \<Rightarrow> float64" where
  "fsub a b = fadd a (fneg b)"

definition fmul :: "float64 \<Rightarrow> float64 \<Rightarrow> float64" where
  "fmul a b =
     (if a = NaN \<or> b = NaN then NaN
      else if isInf a \<or> isInf b then
        (if isZero a \<or> isZero b then NaN else signedInf (signBit a \<noteq> signBit b))
      else if fval a * fval b = 0 then signedZero (signBit a \<noteq> signBit b)
      else round64 (fval a * fval b))"

definition fdiv :: "float64 \<Rightarrow> float64 \<Rightarrow> float64" where
  "fdiv a b =
     (if a = NaN \<or> b = NaN then NaN
      else if isInf a then (if isInf b then NaN else signedInf (signBit a \<noteq> signBit b))
      else if isInf b then signedZero (signBit a \<noteq> signBit b)
      else if isZero b then (if isZero a then NaN else signedInf (signBit a \<noteq> signBit b))
      else if isZero a then signedZero (signBit a \<noteq> signBit b)
      else round64 (fval a / fval b))"

text \<open>The conversion \<open>float64(n)\<close> of an \<open>int\<close>.\<close>

definition float64_of_int :: "int \<Rightarrow> float64" where
  "float64_of_int n = round64 (of_int n)"

subsection \<open>Formatting: \<open>fmt.Sprintf\<close>\<close>

text \<open>The decimal digits of a number \<open>n \<ge> 0\<close>.\<close>

definition digitChar :: "int \<Rightarrow> char" where
  "digitChar n = ''0123456789'' ! nat n"

function digits :: "int \<Rightarrow> string" where
  "digits n = (if n < 10 then [digitChar n] else digits (n div 10) @ [digitChar (n mod 10)])"
  by pat_completeness auto
termination
  by (relation "measure nat") auto

declare digits.simps [simp del]

text \<open>The verb \<open>%d\<close>.\<close>

definition fmtInt :: "int \<Rightarrow> string" where
  "fmtInt i = (if i < 0 then CHR ''-'' # digits (- i) else digits i)"

text \<open>
  The verb \<open>%.\<^emph>\<open>prec\<close>f\<close>: the exact value rounded to \<open>prec\<close> decimals, ties to even; the
  sign is printed for every negative value, also one that rounds to zero.
\<close>

definition fmtAbs :: "nat \<Rightarrow> rat \<Rightarrow> string" where
  "fmtAbs prec a =
     (let n = roundHalfEven (a * 10 ^ prec);
          ip = n div 10 ^ prec;
          fp = digits (n mod 10 ^ prec)
      in digits ip @
         (if prec = 0 then [] else CHR ''.'' # replicate (prec - length fp) CHR ''0'' @ fp))"

definition fmtFloat :: "nat \<Rightarrow> float64 \<Rightarrow> string" where
  "fmtFloat prec x =
     (case x of
        Finite r \<Rightarrow> (if r < 0 then ''-'' else []) @ fmtAbs prec \<bar>r\<bar>
      | NegZero \<Rightarrow> ''-'' @ fmtAbs prec 0
      | PosInf \<Rightarrow> ''+Inf''
      | NegInf \<Rightarrow> ''-Inf''
      | NaN \<Rightarrow> ''NaN'')"

text \<open>
  A format string with its arguments in place: \<open>Lit\<close> is text of the program (the
  literal parts of a format string, a string constant), \<open>ArgS\<close> a string argument of
  \<open>%s\<close>, \<open>ArgD\<close> an \<open>int\<close> argument of \<open>%d\<close>, \<open>ArgF prec\<close> a \<open>float64\<close> argument of
  \<open>%.\<^emph>\<open>prec\<close>f\<close>. The string the program builds is \<open>render\<close> of the pieces.
\<close>

datatype piece = Lit string | ArgS string | ArgD int | ArgF nat float64

fun renderPiece :: "piece \<Rightarrow> string" where
  "renderPiece (Lit s) = s"
| "renderPiece (ArgS s) = s"
| "renderPiece (ArgD i) = fmtInt i"
| "renderPiece (ArgF prec x) = fmtFloat prec x"

definition render :: "piece list \<Rightarrow> string" where
  "render ps = concat (map renderPiece ps)"

text \<open>
  \<open>fmt.Sprintf\<close> reads the format string from left to right: \<open>%%\<close> is a percent sign,
  \<open>%s\<close>, \<open>%d\<close> and \<open>%.\<^emph>\<open>p\<close>f\<close> (one digit \<open>p\<close>) take the next argument, every other
  character is literal text. Every call of the program gives each verb an argument of
  its type; a call that does not is cut at the verb here (Go prints a note there).
\<close>

datatype arg = AS string | AD int | AF float64

definition flush :: "string \<Rightarrow> piece list" where
  "flush lit = (if lit = [] then [] else [Lit lit])"

definition digitVal :: "char \<Rightarrow> nat option" where
  "digitVal c = map_of (zip ''0123456789'' [0, 1, 2, 3, 4, 5, 6, 7, 8, 9]) c"

fun verbs :: "string \<Rightarrow> arg list \<Rightarrow> string \<Rightarrow> piece list" where
  "verbs [] args lit = flush lit"
| "verbs (c # cs) args lit =
     (if c \<noteq> CHR ''%'' then verbs cs args (lit @ [c])
      else case cs of
        [] \<Rightarrow> flush lit
      | v # rest \<Rightarrow>
          if v = CHR ''%'' then verbs rest args (lit @ ''%'')
          else if v = CHR ''s'' then
            (case args of AS s # args' \<Rightarrow> flush lit @ ArgS s # verbs rest args' [] | _ \<Rightarrow> flush lit)
          else if v = CHR ''d'' then
            (case args of AD i # args' \<Rightarrow> flush lit @ ArgD i # verbs rest args' [] | _ \<Rightarrow> flush lit)
          else if v = CHR ''.'' then
            (case rest of
               p # f # rest' \<Rightarrow>
                 (case (digitVal p, f = CHR ''f'', args) of
                    (Some prec, True, AF x # args') \<Rightarrow>
                      flush lit @ ArgF prec x # verbs rest' args' []
                  | _ \<Rightarrow> flush lit)
             | _ \<Rightarrow> flush lit)
          else flush lit)"

definition Sprintf :: "string \<Rightarrow> arg list \<Rightarrow> piece list" where
  "Sprintf format args = verbs format args []"

text \<open>
  Characters outside ASCII in the string constants of the program, as the bytes that
  stand in the source file: the degree sign of the temperature unit, the micro sign of
  the conductivity unit, the cross and the check mark that start the entries of the
  comparison, and the seedling of its positive summary.
\<close>

definition degree :: string where
  "degree = [CHR 0xC3, CHR 0x82, CHR 0xC2, CHR 0xB0]"

definition micro :: string where
  "micro = [CHR 0xC3, CHR 0x82, CHR 0xC2, CHR 0xB5]"

definition cross :: string where
  "cross = [CHR 0xC3, CHR 0xA2, CHR 0xC5, CHR 0x92]"

definition check :: string where
  "check = [CHR 0xC3, CHR 0xA2, CHR 0xC5, CHR 0x93, CHR 0xE2, CHR 0x80, CHR 0xA6]"

definition seedling :: string where
  "seedling = [CHR 0xC3, CHR 0xB0, CHR 0xC5, CHR 0xB8, CHR 0xC5, CHR 0x92, CHR 0xC2, CHR 0xB1]"

section \<open>The care summary\<close>

text \<open>
  The fields of \<open>openplantbook.PlantDetails\<close> that the server reads. The light, humidity,
  soil moisture and conductivity bounds are \<open>int\<close>, the temperature bounds \<open>float64\<close>.
\<close>

record PlantDetails =
  PID :: string
  Alias :: string
  DisplayPID :: string
  Category :: string
  MinLightLux :: int
  MaxLightLux :: int
  MinTemp :: float64
  MaxTemp :: float64
  MinEnvHumid :: int
  MaxEnvHumid :: int
  MinSoilMoist :: int
  MaxSoilMoist :: int
  MinSoilEC :: int
  MaxSoilEC :: int
  ImageURL :: string

definition interpretLightLevel :: "int \<Rightarrow> int \<Rightarrow> string" where
  "interpretLightLevel mn mx =
     (let avg = wrap64 (mn + mx) sdiv 2
      in if avg < 2000 then '' (Low light - suitable for shade-tolerant plants)''
         else if avg < 10000 then '' (Medium indirect light - typical indoor lighting)''
         else if avg < 25000 then '' (Bright indirect light - near windows)''
         else '' (Full sun or very bright light - direct sunlight)'')"

definition interpretMoistureLevel :: "int \<Rightarrow> int \<Rightarrow> string" where
  "interpretMoistureLevel mn mx =
     (let avg = wrap64 (mn + mx) sdiv 2
      in if avg < 20 then '' (Dry soil - water sparingly)''
         else if avg < 40 then '' (Slightly moist - let soil dry between waterings)''
         else if avg < 60 then '' (Evenly moist - keep soil consistently moist)''
         else '' (Very moist - likes wet conditions)'')"

definition tempUnit :: "bool \<Rightarrow> string" where
  "tempUnit metric = (if \<not> metric then degree @ ''F'' else degree @ ''C'')"

text \<open>
  \<open>formatCareSummary_pieces\<close> is the summary before rendering, each \<open>summary += ...\<close> of
  the source an append; \<open>formatCareSummary\<close> is the string the function returns.
\<close>

definition formatCareSummary_pieces :: "PlantDetails \<Rightarrow> bool \<Rightarrow> piece list" where
  "formatCareSummary_pieces details metric =
     (let summary = Sprintf ''# %s (%s)\<newline>\<newline>'' [AS (Alias details), AS (DisplayPID details)];
          summary = summary @ Sprintf ''Category: %s\<newline>\<newline>'' [AS (Category details)];
          summary = summary @ [Lit ''## Care Requirements\<newline>\<newline>''];
          summary =
            (if 0 < MaxLightLux details then
               summary
               @ Sprintf ''**Light**: %d - %d lux'' [AD (MinLightLux details), AD (MaxLightLux details)]
               @ [Lit (interpretLightLevel (MinLightLux details) (MaxLightLux details))]
               @ [Lit ''\<newline>\<newline>'']
             else summary);
          summary =
            (if fgt (MaxTemp details) (Finite 0) then
               (if metric then
                  summary
                  @ Sprintf ''**Temperature**: %.1f - %.1f%s\<newline>\<newline>''
                      [AF (MinTemp details), AF (MaxTemp details), AS (tempUnit metric)]
                else
                  (let minF = fadd (fdiv (fmul (MinTemp details) (Finite 9)) (Finite 5)) (Finite 32);
                       maxF = fadd (fdiv (fmul (MaxTemp details) (Finite 9)) (Finite 5)) (Finite 32)
                   in summary
                      @ Sprintf ''**Temperature**: %.1f - %.1f%s\<newline>\<newline>''
                          [AF minF, AF maxF, AS (tempUnit metric)]))
             else summary);
          summary =
            (if 0 < MaxEnvHumid details then
               summary
               @ Sprintf ''**Humidity**: %d - %d%%\<newline>\<newline>''
                   [AD (MinEnvHumid details), AD (MaxEnvHumid details)]
             else summary);
          summary =
            (if 0 < MaxSoilMoist details then
               summary
               @ Sprintf ''**Soil Moisture**: %d - %d%%''
                   [AD (MinSoilMoist details), AD (MaxSoilMoist details)]
               @ [Lit (interpretMoistureLevel (MinSoilMoist details) (MaxSoilMoist details))]
               @ [Lit ''\<newline>\<newline>'']
             else summary);
          summary =
            (if 0 < MaxSoilEC details then
               summary
               @ Sprintf (''**Fertilizer (EC)**: %d - %d '' @ micro @ ''S/cm\<newline>\<newline>'')
                   [AD (MinSoilEC details), AD (MaxSoilEC details)]
             else summary);
          summary =
            (if ImageURL details \<noteq> [] then
               summary @ Sprintf ''\<newline>[Plant Image](%s)\<newline>'' [AS (ImageURL details)]
             else summary)
      in summary)"

definition formatCareSummary :: "PlantDetails \<Rightarrow> bool \<Rightarrow> string" where
  "formatCareSummary details metric = render (formatCareSummary_pieces details metric)"

section \<open>The comparison of conditions\<close>

text \<open>
  A value of type \<open>interface{}\<close>: what the JSON decoder produces (\<open>nil\<close>, \<open>bool\<close>,
  \<open>float64\<close> for every number, \<open>string\<close>, a map, a slice), and \<open>int\<close> for a value a Go
  caller builds itself.
\<close>

datatype go_value =
    VNil
  | VBool bool
  | VInt int
  | VFloat64 float64
  | VString string
  | VMap "(string \<times> go_value) list"
  | VSlice "go_value list"

text \<open>
  The type assertion \<open>v, exists := conditions[key].(float64)\<close>: for a missing key the
  map yields the \<open>nil\<close> interface, and the assertion holds for a \<open>float64\<close> only.
\<close>

definition asFloat64 :: "go_value option \<Rightarrow> float64 option" where
  "asFloat64 v = (case v of Some (VFloat64 x) \<Rightarrow> Some x | _ \<Rightarrow> None)"

text \<open>
  The four blocks of \<open>compareConditions\<close>, in the order of the source. Each takes the
  slices \<open>issues\<close> and \<open>ok\<close> and returns them, with one entry appended to one of them
  when the dimension is evaluated.
\<close>

definition checkMoisture ::
  "PlantDetails \<Rightarrow> (string \<rightharpoonup> go_value) \<Rightarrow> piece list list \<times> piece list list
     \<Rightarrow> piece list list \<times> piece list list" where
  "checkMoisture details conditions st =
     (case st of (issues, ok) \<Rightarrow>
        (case asFloat64 (conditions ''moisture'') of
           Some moisture \<Rightarrow>
             if 0 < MaxSoilMoist details then
               (let mn = float64_of_int (MinSoilMoist details); mx = float64_of_int (MaxSoilMoist details)
                in if flt moisture mn then
                     (let diff = fsub mn moisture
                      in (issues @ [Sprintf
                            (cross @ '' **Soil Moisture Too Low**: Current %.1f%%, needs %.0f-%.0f%% (%.1f%% below minimum)'')
                            [AF moisture, AF mn, AF mx, AF diff]], ok))
                   else if fgt moisture mx then
                     (let diff = fsub moisture mx
                      in (issues @ [Sprintf
                            (cross @ '' **Soil Moisture Too High**: Current %.1f%%, needs %.0f-%.0f%% (%.1f%% above maximum)'')
                            [AF moisture, AF mn, AF mx, AF diff]], ok))
                   else
                     (issues, ok @ [Sprintf
                        (check @ '' **Soil Moisture**: %.1f%% (within %.0f-%.0f%% range)'')
                        [AF moisture, AF mn, AF mx]]))
             else st
         | None \<Rightarrow> st))"

definition checkTemperature ::
  "PlantDetails \<Rightarrow> (string \<rightharpoonup> go_value) \<Rightarrow> piece list list \<times> piece list list
     \<Rightarrow> piece list list \<times> piece list list" where
  "checkTemperature details conditions st =
     (case st of (issues, ok) \<Rightarrow>
        (case asFloat64 (conditions ''temperature'') of
           Some temp \<Rightarrow>
             if fgt (MaxTemp details) (Finite 0) then
               (let mn = MinTemp details; mx = MaxTemp details
                in if flt temp mn then
                     (let diff = fsub mn temp
                      in (issues @ [Sprintf
                            (cross @ '' **Temperature Too Low**: Current %.1f'' @ degree
                             @ ''C, needs %.1f-%.1f'' @ degree @ ''C (%.1f'' @ degree @ ''C below minimum)'')
                            [AF temp, AF mn, AF mx, AF diff]], ok))
                   else if fgt temp mx then
                     (let diff = fsub temp mx
                      in (issues @ [Sprintf
                            (cross @ '' **Temperature Too High**: Current %.1f'' @ degree
                             @ ''C, needs %.1f-%.1f'' @ degree @ ''C (%.1f'' @ degree @ ''C above maximum)'')
                            [AF temp, AF mn, AF mx, AF diff]], ok))
                   else
                     (issues, ok @ [Sprintf
                        (check @ '' **Temperature**: %.1f'' @ degree @ ''C (within %.1f-%.1f'' @ degree @ ''C range)'')
                        [AF temp, AF mn, AF mx]]))
             else st
         | None \<Rightarrow> st))"

definition checkLight ::
  "PlantDetails \<Rightarrow> (string \<rightharpoonup> go_value) \<Rightarrow> piece list list \<times> piece list list
     \<Rightarrow> piece list list \<times> piece list list" where
  "checkLight details conditions st =
     (case st of (issues, ok) \<Rightarrow>
        (case asFloat64 (conditions ''light_lux'') of
           Some light \<Rightarrow>
             if 0 < MaxLightLux details then
               (let mn = float64_of_int (MinLightLux details); mx = float64_of_int (MaxLightLux details)
                in if flt light mn then
                     (let diff = fsub mn light
                      in (issues @ [Sprintf
                            (cross @ '' **Light Too Low**: Current %.0f lux, needs %.0f-%.0f lux (%.0f lux below minimum)'')
                            [AF light, AF mn, AF mx, AF diff]], ok))
                   else if fgt light mx then
                     (let diff = fsub light mx
                      in (issues @ [Sprintf
                            (cross @ '' **Light Too High**: Current %.0f lux, needs %.0f-%.0f lux (%.0f lux above maximum)'')
                            [AF light, AF mn, AF mx, AF diff]], ok))
                   else
                     (issues, ok @ [Sprintf
                        (check @ '' **Light**: %.0f lux (within %.0f-%.0f lux range)'')
                        [AF light, AF mn, AF mx]]))
             else st
         | None \<Rightarrow> st))"

definition checkHumidity ::
  "PlantDetails \<Rightarrow> (string \<rightharpoonup> go_value) \<Rightarrow> piece list list \<times> piece list list
     \<Rightarrow> piece list list \<times> piece list list" where
  "checkHumidity details conditions st =
     (case st of (issues, ok) \<Rightarrow>
        (case asFloat64 (conditions ''humidity'') of
           Some humid \<Rightarrow>
             if 0 < MaxEnvHumid details then
               (let mn = float64_of_int (MinEnvHumid details); mx = float64_of_int (MaxEnvHumid details)
                in if flt humid mn then
                     (let diff = fsub mn humid
                      in (issues @ [Sprintf
                            (cross @ '' **Humidity Too Low**: Current %.1f%%, needs %.0f-%.0f%% (%.1f%% below minimum)'')
                            [AF humid, AF mn, AF mx, AF diff]], ok))
                   else if fgt humid mx then
                     (let diff = fsub humid mx
                      in (issues @ [Sprintf
                            (cross @ '' **Humidity Too High**: Current %.1f%%, needs %.0f-%.0f%% (%.1f%% above maximum)'')
                            [AF humid, AF mn, AF mx, AF diff]], ok))
                   else
                     (issues, ok @ [Sprintf
                        (check @ '' **Humidity**: %.1f%% (within %.0f-%.0f%% range)'')
                        [AF humid, AF mn, AF mx]]))
             else st
         | None \<Rightarrow> st))"

definition compareChecks ::
  "PlantDetails \<Rightarrow> (string \<rightharpoonup> go_value) \<Rightarrow> piece list list \<times> piece list list" where
  "compareChecks details conditions =
     checkHumidity details conditions
       (checkLight details conditions
          (checkTemperature details conditions
             (checkMoisture details conditions ([], []))))"

text \<open>The output built from the two slices (\<open>// Build output\<close> in the source).\<close>

definition compareOutput :: "PlantDetails \<Rightarrow> piece list list \<Rightarrow> piece list list \<Rightarrow> piece list" where
  "compareOutput details issues ok =
     (let analysis = Sprintf ''# Condition Analysis for %s\<newline>\<newline>'' [AS (Alias details)];
          analysis =
            (if 0 < length issues then
               analysis @ [Lit ''## Issues Detected\<newline>\<newline>'']
               @ concat (map (\<lambda>issue. issue @ [Lit ''\<newline>\<newline>'']) issues)
             else analysis);
          analysis =
            (if 0 < length ok then
               analysis @ [Lit ''## Conditions Within Range\<newline>\<newline>'']
               @ concat (map (\<lambda>condition. condition @ [Lit ''\<newline>\<newline>'']) ok)
             else analysis);
          analysis =
            (if length issues = 0 \<and> length ok = 0 then
               analysis @ [Lit ''No conditions were provided for comparison.\<newline>'']
             else analysis);
          analysis =
            (if length issues = 0 \<and> 0 < length ok then
               analysis
               @ [Lit (''\<newline>**Summary**: All monitored conditions are within ideal ranges! ''
                       @ seedling @ ''\<newline>'')]
             else if 0 < length issues then
               analysis
               @ Sprintf ''\<newline>**Summary**: %d condition(s) need attention.\<newline>''
                   [AD (int (length issues))]
             else analysis)
      in analysis)"

definition compareConditions_pieces :: "PlantDetails \<Rightarrow> (string \<rightharpoonup> go_value) \<Rightarrow> piece list" where
  "compareConditions_pieces details conditions =
     (case compareChecks details conditions of (issues, ok) \<Rightarrow> compareOutput details issues ok)"

definition compareConditions :: "PlantDetails \<Rightarrow> (string \<rightharpoonup> go_value) \<Rightarrow> string" where
  "compareConditions details conditions = render (compareConditions_pieces details conditions)"

section \<open>The tool handlers\<close>

text \<open>
  The request and result types belong to the MCP library (\<open>mcp-go\<close>), which is not part
  of the repository. A request carries its arguments as a value of type \<open>any\<close>; a result
  is a list of text contents and the flag \<open>IsError\<close>.
\<close>

record CallToolRequest =
  ToolName :: string
  Arguments :: go_value

record CallToolResult =
  Content :: "string list"
  IsError :: bool

text \<open>
  Modelled from the spec: the library's \<open>NewToolResultError\<close> and \<open>NewToolResultText\<close>
  are missing from the sources; section 6 of the spec has the transport expect
  ``either a success payload (text or structured data) or an explicit error-flagged
  text payload''.
\<close>

definition NewToolResultError :: "string \<Rightarrow> CallToolResult" where
  "NewToolResultError text = \<lparr>Content = [text], IsError = True\<rparr>"

definition NewToolResultText :: "string \<Rightarrow> CallToolResult" where
  "NewToolResultText text = \<lparr>Content = [text], IsError = False\<rparr>"

text \<open>
  Modelled from the spec: the library's \<open>GetArguments\<close> and \<open>RequireString\<close> are missing
  from the sources; section 6 of the spec describes the arguments as a ``loosely-typed
  argument bag (string/number/boolean/nested-object fields)''. \<open>GetArguments\<close> is the
  bag when the arguments are an object and has no key otherwise; \<open>RequireString key\<close>
  is the string stored under \<open>key\<close>, and an error when the key is missing or holds
  anything else.
\<close>

definition GetArguments :: "CallToolRequest \<Rightarrow> (string \<rightharpoonup> go_value)" where
  "GetArguments request = (case Arguments request of VMap kvs \<Rightarrow> map_of kvs | _ \<Rightarrow> Map.empty)"

definition RequireString :: "CallToolRequest \<Rightarrow> string \<Rightarrow> string + string" where
  "RequireString request key =
     (case GetArguments request key of
        Some (VString str) \<Rightarrow> Inr str
      | Some _ \<Rightarrow> Inl (''argument '' @ key @ '' is not a string'')
      | None \<Rightarrow> Inl (''required argument '' @ key @ '' not found''))"

text \<open>
  What a handler calls outside the repository and outside the two functions above: the
  other argument getters of the library, the client of the plant database, and the JSON
  encoder. They are parameters of the model. A call of the client or of the encoder
  yields an error (\<open>Inl\<close>, \<open>None\<close>) or a value.
\<close>

record 'r collaborators =
  GetInt :: "CallToolRequest \<Rightarrow> string \<Rightarrow> int \<Rightarrow> int"
  GetString :: "CallToolRequest \<Rightarrow> string \<Rightarrow> string \<Rightarrow> string"
  GetBool :: "CallToolRequest \<Rightarrow> string \<Rightarrow> bool \<Rightarrow> bool"
  SearchPlants :: "string \<Rightarrow> int \<Rightarrow> string + 'r"
  GetPlantDetails :: "string \<Rightarrow> string \<Rightarrow> string + PlantDetails"
  MarshalResults :: "'r \<Rightarrow> string option"
  MarshalDetails :: "PlantDetails \<Rightarrow> string option"

text \<open>
  A handler returns a pair \<open>(*mcp.CallToolResult, error)\<close>; the second component is
  \<open>None\<close> for \<open>nil\<close>. Logging writes to standard error only and is left out.
  \<open>defaultLang\<close> is \<open>s.config.DefaultLang\<close>.
\<close>

definition handleSearchPlants ::
  "'r collaborators \<Rightarrow> CallToolRequest \<Rightarrow> CallToolResult \<times> string option" where
  "handleSearchPlants ext request =
     (case RequireString request ''query'' of
        Inl err \<Rightarrow> (NewToolResultError ''query parameter is required and must be a string'', None)
      | Inr query \<Rightarrow>
          (let limit = GetInt ext request ''limit'' 10
           in case SearchPlants ext query limit of
                Inl err \<Rightarrow> (NewToolResultError (''search failed: '' @ err), None)
              | Inr results \<Rightarrow>
                  (case MarshalResults ext results of
                     None \<Rightarrow> (NewToolResultError ''failed to format results'', None)
                   | Some data \<Rightarrow> (NewToolResultText data, None))))"

definition handleGetPlantCare ::
  "'r collaborators \<Rightarrow> string \<Rightarrow> CallToolRequest \<Rightarrow> CallToolResult \<times> string option" where
  "handleGetPlantCare ext defaultLang request =
     (case RequireString request ''pid'' of
        Inl err \<Rightarrow> (NewToolResultError ''pid parameter is required and must be a string'', None)
      | Inr pid \<Rightarrow>
          (let language = GetString ext request ''language'' defaultLang
           in case GetPlantDetails ext pid language of
                Inl err \<Rightarrow> (NewToolResultError (''failed to get plant details: '' @ err), None)
              | Inr details \<Rightarrow>
                  (case MarshalDetails ext details of
                     None \<Rightarrow> (NewToolResultError ''failed to format details'', None)
                   | Some data \<Rightarrow> (NewToolResultText data, None))))"

definition handleGetCareSummary ::
  "'r collaborators \<Rightarrow> string \<Rightarrow> CallToolRequest \<Rightarrow> CallToolResult \<times> string option" where
  "handleGetCareSummary ext defaultLang request =
     (case RequireString request ''pid'' of
        Inl err \<Rightarrow> (NewToolResultError ''pid parameter is required and must be a string'', None)
      | Inr pid \<Rightarrow>
          (let metric = GetBool ext request ''metric'' True
           in case GetPlantDetails ext pid defaultLang of
                Inl err \<Rightarrow> (NewToolResultError (''failed to get plant details: '' @ err), None)
              | Inr details \<Rightarrow> (NewToolResultText (formatCareSummary details metric), None)))"

definition handleCompareConditions ::
  "'r collaborators \<Rightarrow> string \<Rightarrow> CallToolRequest \<Rightarrow> CallToolResult \<times> string option" where
  "handleCompareConditions ext defaultLang request =
     (case RequireString request ''pid'' of
        Inl err \<Rightarrow> (NewToolResultError ''pid parameter is required and must be a string'', None)
      | Inr pid \<Rightarrow>
          (case GetArguments request ''current_conditions'' of
             Some (VMap conditions) \<Rightarrow>
               (case GetPlantDetails ext pid defaultLang of
                  Inl err \<Rightarrow> (NewToolResultError (''failed to get plant details: '' @ err), None)
                | Inr details \<Rightarrow>
                    (NewToolResultText (compareConditions details (map_of conditions)), None))
           | _ \<Rightarrow>
               (NewToolResultError
                  ''current_conditions parameter is required and must be an object'', None)))"

section \<open>The configuration\<close>

datatype Level = LevelDebug | LevelInfo | LevelWarn | LevelError

record Config =
  APIKey :: string
  ClientID :: string
  ClientSecret :: string
  LogLevel :: Level
  CacheEnabled :: bool
  CacheTTL :: int
  DefaultLang :: string

text \<open>
  The configuration library (\<open>viper\<close>) is not part of the repository. \<open>LoadConfig\<close> sees
  it through the outcome of \<open>v.ReadInConfig()\<close> and through the values the getters
  return once the defaults, the environment and the file have been put together; both
  are parameters of the model.
\<close>

datatype readOutcome = ReadOK | ConfigFileNotFoundError | OtherReadError string

record viper =
  ReadInConfig :: readOutcome
  ViperGetString :: "string \<Rightarrow> string"
  ViperGetBool :: "string \<Rightarrow> bool"
  ViperGetInt :: "string \<Rightarrow> int"

definition parseLogLevel :: "string \<Rightarrow> Level" where
  "parseLogLevel s =
     (if s = ''debug'' then LevelDebug
      else if s = ''info'' then LevelInfo
      else if s = ''warn'' then LevelWarn
      else if s = ''error'' then LevelError
      else LevelInfo)"

text \<open>
  \<open>LoadConfig\<close> returns \<open>(*Config, error)\<close>: \<open>Inl\<close> is the error. With no path given the
  default locations are tried and every error of reading them is ignored.
\<close>

definition LoadConfig :: "string \<Rightarrow> viper \<Rightarrow> string + Config" where
  "LoadConfig configPath v =
     (case (if configPath \<noteq> [] then
              (case ReadInConfig v of
                 OtherReadError err \<Rightarrow> Some (''read config file: '' @ err)
               | _ \<Rightarrow> None)
            else None) of
        Some err \<Rightarrow> Inl err
      | None \<Rightarrow>
          (let config = \<lparr>APIKey = ViperGetString v ''api_key'',
                         ClientID = ViperGetString v ''client_id'',
                         ClientSecret = ViperGetString v ''client_secret'',
                         LogLevel = parseLogLevel (ViperGetString v ''log_level''),
                         CacheEnabled = ViperGetBool v ''cache_enabled'',
                         CacheTTL = ViperGetInt v ''cache_ttl_hours'',
                         DefaultLang = ViperGetString v ''default_language''\<rparr>;
               hasAPIKey = (APIKey config \<noteq> []);
               hasOAuth2 = (ClientID config \<noteq> [] \<and> ClientSecret config \<noteq> [])
           in if \<not> hasAPIKey \<and> \<not> hasOAuth2 then
                Inl ''authentication required: provide either api_key OR (client_id and client_secret)''
              else if hasAPIKey \<and> hasOAuth2 then
                Inl ''multiple authentication methods provided: use either api_key OR OAuth2, not both''
              else Inr config))"

text \<open>The authentication \<open>New\<close> hands to the client of the plant database.\<close>

datatype authOption = WithAPIKey string | WithOAuth2 string string

definition authOptionOf :: "Config \<Rightarrow> authOption" where
  "authOptionOf config =
     (if APIKey config \<noteq> [] then WithAPIKey (APIKey config)
      else WithOAuth2 (ClientID config) (ClientSecret config))"

section \<open>Views of the output and example inputs\<close>

text \<open>
  What the statements below say about an output: the number of characters after the
  decimal point of a rendered number (none when it has no decimal point), and whether a
  literal piece, that is text of the program as opposed to a string or number of the
  plant or the reading, contains a word \<open>w\<close>.
\<close>

fun decimals :: "string \<Rightarrow> nat option" where
  "decimals [] = None"
| "decimals (c # cs) = (if c = CHR ''.'' then Some (length cs) else decimals cs)"

definition contains :: "string \<Rightarrow> string \<Rightarrow> bool" where
  "contains w s = list_ex (prefix w) (suffixes s)"

fun mentions :: "string \<Rightarrow> piece list \<Rightarrow> bool" where
  "mentions w [] = False"
| "mentions w (Lit s # ps) = (contains w s \<or> mentions w ps)"
| "mentions w (p # ps) = mentions w ps"

text \<open>
  The sections of the care summary, one for each \<open>if\<close> of \<open>formatCareSummary\<close>: the pieces
  the block appends, and nothing when its condition fails. The lemma
  \<open>formatCareSummary_pieces_sections\<close> shows that the summary is their concatenation.
\<close>

definition summaryHeader :: "PlantDetails \<Rightarrow> piece list" where
  "summaryHeader d =
     [Lit ''# '', ArgS (Alias d), Lit '' ('', ArgS (DisplayPID d), Lit '')\<newline>\<newline>'',
      Lit ''Category: '', ArgS (Category d), Lit ''\<newline>\<newline>'',
      Lit ''## Care Requirements\<newline>\<newline>'']"

definition lightSection :: "PlantDetails \<Rightarrow> piece list" where
  "lightSection d =
     (if 0 < MaxLightLux d then
        [Lit ''**Light**: '', ArgD (MinLightLux d), Lit '' - '', ArgD (MaxLightLux d), Lit '' lux'',
         Lit (interpretLightLevel (MinLightLux d) (MaxLightLux d)), Lit ''\<newline>\<newline>'']
      else [])"

definition temperatureSection :: "PlantDetails \<Rightarrow> bool \<Rightarrow> piece list" where
  "temperatureSection d metric =
     (if fgt (MaxTemp d) (Finite 0) then
        [Lit ''**Temperature**: '',
         ArgF 1 (if metric then MinTemp d
                 else fadd (fdiv (fmul (MinTemp d) (Finite 9)) (Finite 5)) (Finite 32)),
         Lit '' - '',
         ArgF 1 (if metric then MaxTemp d
                 else fadd (fdiv (fmul (MaxTemp d) (Finite 9)) (Finite 5)) (Finite 32)),
         ArgS (tempUnit metric), Lit ''\<newline>\<newline>'']
      else [])"

definition humiditySection :: "PlantDetails \<Rightarrow> piece list" where
  "humiditySection d =
     (if 0 < MaxEnvHumid d then
        [Lit ''**Humidity**: '', ArgD (MinEnvHumid d), Lit '' - '', ArgD (MaxEnvHumid d),
         Lit ''%\<newline>\<newline>'']
      else [])"

definition moistureSection :: "PlantDetails \<Rightarrow> piece list" where
  "moistureSection d =
     (if 0 < MaxSoilMoist d then
        [Lit ''**Soil Moisture**: '', ArgD (MinSoilMoist d), Lit '' - '', ArgD (MaxSoilMoist d),
         Lit ''%'', Lit (interpretMoistureLevel (MinSoilMoist d) (MaxSoilMoist d)),
         Lit ''\<newline>\<newline>'']
      else [])"

definition conductivitySection :: "PlantDetails \<Rightarrow> piece list" where
  "conductivitySection d =
     (if 0 < MaxSoilEC d then
        [Lit ''**Fertilizer (EC)**: '', ArgD (MinSoilEC d), Lit '' - '', ArgD (MaxSoilEC d),
         Lit ('' '' @ micro @ ''S/cm\<newline>\<newline>'')]
      else [])"

definition imageSection :: "PlantDetails \<Rightarrow> piece list" where
  "imageSection d =
     (if ImageURL d \<noteq> [] then [Lit ''\<newline>[Plant Image]('', ArgS (ImageURL d), Lit '')\<newline>''] else [])"


text \<open>A plant with every dimension specified, used for the concrete instances.\<close>

definition exampleDetails :: PlantDetails where
  "exampleDetails =
     \<lparr>PID = ''monstera deliciosa'', Alias = ''Monstera'', DisplayPID = ''Monstera deliciosa'',
      Category = ''Araceae'', MinLightLux = 1500, MaxLightLux = 3000,
      MinTemp = Finite 18, MaxTemp = Finite 27, MinEnvHumid = 60, MaxEnvHumid = 80,
      MinSoilMoist = 25, MaxSoilMoist = 60, MinSoilEC = 350, MaxSoilEC = 2000, ImageURL = []\<rparr>"


text \<open>
  The \<open>float64\<close> arguments of a line from left to right, each with the precision of
  its verb \<open>%.\<^emph>\<open>p\<close>f\<close>.
\<close>

fun floatArgs :: "piece list \<Rightarrow> (nat \<times> float64) list" where
  "floatArgs [] = []"
| "floatArgs (ArgF p x # ps) = (p, x) # floatArgs ps"
| "floatArgs (q # ps) = floatArgs ps"

text \<open>Readings used for the concrete instances.\<close>

definition lowMoistureReading :: "string \<rightharpoonup> go_value" where
  "lowMoistureReading =
     map_of [(''moisture'', VFloat64 (Finite 15)), (''temperature'', VFloat64 (Finite 22)),
             (''light_lux'', VFloat64 (Finite 2000)), (''humidity'', VFloat64 (Finite 65))]"

definition idealReading :: "string \<rightharpoonup> go_value" where
  "idealReading =
     map_of [(''moisture'', VFloat64 (Finite 45)), (''temperature'', VFloat64 (Finite 22)),
             (''light_lux'', VFloat64 (Finite 2000)), (''humidity'', VFloat64 (Finite 65))]"

definition dimLightReading :: "string \<rightharpoonup> go_value" where
  "dimLightReading = map_of [(''light_lux'', VFloat64 (Finite (4801 / 4)))]"

text \<open>A plant for which no dimension is specified.\<close>

definition bareDetails :: PlantDetails where
  "bareDetails =
     \<lparr>PID = ''fern'', Alias = ''Fern'', DisplayPID = ''Fern'', Category = ''Ferns'',
      MinLightLux = 0, MaxLightLux = 0, MinTemp = Finite 0, MaxTemp = Finite 0,
      MinEnvHumid = 0, MaxEnvHumid = 0, MinSoilMoist = 0, MaxSoilMoist = 0,
      MinSoilEC = 0, MaxSoilEC = 0, ImageURL = []\<rparr>"

text \<open>The text \<open>compareConditions\<close> writes around the entries of the two slices.\<close>

definition compareLiterals :: "string list" where
  "compareLiterals =
     [''# Condition Analysis for '', ''\<newline>\<newline>'', ''## Issues Detected\<newline>\<newline>'',
      ''## Conditions Within Range\<newline>\<newline>'',
      ''No conditions were provided for comparison.\<newline>'',
      ''\<newline>**Summary**: All monitored conditions are within ideal ranges! '' @ seedling @ ''\<newline>'',
      ''\<newline>**Summary**: '', '' condition(s) need attention.\<newline>'']"

text \<open>The entries of a pair of slices.\<close>

definition entries :: "piece list list \<times> piece list list \<Rightarrow> piece list set" where
  "entries st = set (fst st) \<union> set (snd st)"

definition boundaryReading :: "string \<rightharpoonup> go_value" where
  "boundaryReading =
     map_of [(''moisture'', VFloat64 (Finite 25)), (''temperature'', VFloat64 (Finite 27)),
             (''light_lux'', VFloat64 (Finite 1500)), (''humidity'', VFloat64 (Finite 80))]"

text \<open>
  Requests and collaborators for the concrete instances: a search without a query, a
  comparison without its conditions, and collaborators that would fail if called.
\<close>

definition searchWithoutQuery :: CallToolRequest where
  "searchWithoutQuery =
     \<lparr>ToolName = ''search_plants'', Arguments = VMap [(''limit'', VFloat64 (Finite 10))]\<rparr>"

definition compareWithoutConditions :: CallToolRequest where
  "compareWithoutConditions =
     \<lparr>ToolName = ''compare_conditions'',
      Arguments = VMap [(''pid'', VString ''monstera-deliciosa'')]\<rparr>"

definition failingCollaborators :: "unit collaborators" where
  "failingCollaborators =
     \<lparr>GetInt = (\<lambda>request key dflt. dflt),
      GetString = (\<lambda>request key dflt. dflt),
      GetBool = (\<lambda>request key dflt. dflt),
      SearchPlants = (\<lambda>query limit. Inl ''unavailable''),
      GetPlantDetails = (\<lambda>pid language. Inl ''unavailable''),
      MarshalResults = (\<lambda>results. None),
      MarshalDetails = (\<lambda>details. None)\<rparr>"

text \<open>
  Configurations for the concrete instances: an API key together with a client id and no
  client secret; and an API key alone with a configuration file that cannot be read.
\<close>

definition keyAndClientId :: viper where
  "keyAndClientId =
     \<lparr>ReadInConfig = ReadOK,
      ViperGetString = (\<lambda>key. if key = ''api_key'' then ''secret-key''
                               else if key = ''client_id'' then ''client''
                               else if key = ''default_language'' then ''en''
                               else if key = ''log_level'' then ''info'' else []),
      ViperGetBool = (\<lambda>key. True),
      ViperGetInt = (\<lambda>key. 24)\<rparr>"

definition unreadableFile :: viper where
  "unreadableFile =
     \<lparr>ReadInConfig = OtherReadError ''open /missing.json: no such file or directory'',
      ViperGetString = (\<lambda>key. if key = ''api_key'' then ''secret-key''
                               else if key = ''default_language'' then ''en''
                               else if key = ''log_level'' then ''info'' else []),
      ViperGetBool = (\<lambda>key. True),
      ViperGetInt = (\<lambda>key. 24)\<rparr>"

section \<open>The rounding of \<open>float64\<close>\<close>

text \<open>
  Two facts behind \<open>round64\<close>: \<open>ilog2\<close> is the exponent of the leading bit, and
  \<open>roundHalfEven\<close> moves a number by at most one half.
\<close>

lemma pow2_nonneg: "0 \<le> k \<Longrightarrow> pow2 k = 2 ^ nat k"
  by (simp add: pow2_def)

lemma pow2_neg: "k \<le> 0 \<Longrightarrow> pow2 k = 1 / 2 ^ nat (- k)"
  by (cases "k = 0") (simp_all add: pow2_def)

lemma ilog2_bounds:
  assumes "0 < a"
  shows "pow2 (ilog2 a) \<le> a \<and> a < pow2 (ilog2 a + 1)"
proof (cases "1 \<le> a")
  case True
  define f where "f = \<lfloor>a\<rfloor>"
  from True have f: "0 < f" by (simp add: f_def)
  from bitlen_bounds [OF f] have b: "2 ^ nat (bitlen f - 1) \<le> f" "f < 2 ^ nat (bitlen f)"
    by simp_all
  from f have k: "1 \<le> bitlen f" by (simp add: bitlen_alt_def)
  from b(1) have "(2 :: rat) ^ nat (bitlen f - 1) \<le> of_int f"
    by (simp only: numeral_power_le_of_int_cancel_iff)
  also have "\<dots> \<le> a" by (simp add: f_def)
  finally have lo: "(2 :: rat) ^ nat (bitlen f - 1) \<le> a" .
  from b(2) have "f + 1 \<le> 2 ^ nat (bitlen f)" by simp
  then have fle: "(of_int (f + 1) :: rat) \<le> 2 ^ nat (bitlen f)"
    by (simp only: of_int_le_numeral_power_cancel_iff)
  have "a < of_int (f + 1)" unfolding f_def by linarith
  from this fle have hi: "a < 2 ^ nat (bitlen f)" by (rule less_le_trans)
  from True k lo hi show ?thesis
    by (simp add: ilog2_def f_def [symmetric] pow2_nonneg)
next
  case False
  define c where "c = \<lceil>1 / a\<rceil>"
  from False assms have b1: "1 < 1 / a" by simp
  then have c2: "2 \<le> c" unfolding c_def by (simp add: le_ceiling_iff)
  then have c1: "0 < c - 1" by simp
  define k where "k = bitlen (c - 1)"
  from bitlen_bounds [OF c1] have b: "2 ^ nat (k - 1) \<le> c - 1" "c - 1 < 2 ^ nat k"
    by (simp_all add: k_def)
  from c1 have k1: "1 \<le> k" by (simp add: k_def bitlen_alt_def)
  from b(2) have "c \<le> 2 ^ nat k" by simp
  then have cle: "(of_int c :: rat) \<le> 2 ^ nat k" by simp
  have "1 / a \<le> of_int c" unfolding c_def by linarith
  from this cle have "1 / a \<le> 2 ^ nat k" by (rule order_trans)
  with assms have lo: "1 / 2 ^ nat k \<le> a"
    by (simp add: field_simps)
  have clt: "of_int (c - 1) < 1 / a" unfolding c_def by linarith
  from b(1) have "(2 :: rat) ^ nat (k - 1) \<le> of_int (c - 1)"
    by (simp only: numeral_power_le_of_int_cancel_iff)
  from this clt have "2 ^ nat (k - 1) < 1 / a" by (rule le_less_trans)
  with assms have hi: "a < 1 / 2 ^ nat (k - 1)"
    by (simp add: field_simps)
  have eq: "nat (- (1 - k)) = nat (k - 1)" by simp
  from False k1 lo hi show ?thesis
    by (simp add: ilog2_def c_def [symmetric] k_def [symmetric] pow2_neg eq)
qed


lemma roundHalfEven_nearest: "\<bar>of_int (roundHalfEven q) - q\<bar> \<le> 1 / 2"
proof -
  define f where "f = \<lfloor>q\<rfloor>"
  have "of_int f \<le> q" "q < of_int f + 1" unfolding f_def by linarith+
  then show ?thesis
    unfolding roundHalfEven_def Let_def f_def [symmetric]
    by (auto simp: abs_if)
qed

section \<open>The shape of the care summary\<close>

lemma formatCareSummary_pieces_sections:
  "formatCareSummary_pieces d metric =
     summaryHeader d @ lightSection d @ temperatureSection d metric @ humiditySection d
     @ moistureSection d @ conductivitySection d @ imageSection d"
  by (simp add: formatCareSummary_pieces_def Let_def Sprintf_def flush_def digitVal_def micro_def
      summaryHeader_def lightSection_def temperatureSection_def humiditySection_def
      moistureSection_def conductivitySection_def imageSection_def)

lemma wrap64_in_range: "int64_range x \<Longrightarrow> wrap64 x = x"
  by (simp add: wrap64_def int64_range_def signed_take_bit_int_eq_self)

section \<open>The qualitative tags\<close>

lemma interpretLightLevel_ladder:
  "(let avg = wrap64 (mn + mx) sdiv 2;
           tag = interpretLightLevel mn mx
       in (avg < 2000 \<longrightarrow> tag = '' (Low light - suitable for shade-tolerant plants)'')
        \<and> (2000 \<le> avg \<and> avg < 10000 \<longrightarrow> tag = '' (Medium indirect light - typical indoor lighting)'')
        \<and> (10000 \<le> avg \<and> avg < 25000 \<longrightarrow> tag = '' (Bright indirect light - near windows)'')
        \<and> (25000 \<le> avg \<longrightarrow> tag = '' (Full sun or very bright light - direct sunlight)''))"
  by (simp add: interpretLightLevel_def Let_def)

lemma light_line_in_summary:
  "0 < MaxLightLux d \<Longrightarrow>
   sublist
     [Lit ''**Light**: '', ArgD (MinLightLux d), Lit '' - '', ArgD (MaxLightLux d), Lit '' lux'',
      Lit (interpretLightLevel (MinLightLux d) (MaxLightLux d)), Lit ''\<newline>\<newline>'']
     (formatCareSummary_pieces d metric)"
proof -
  assume pos: "0 < MaxLightLux d"
  have "sublist (lightSection d)
     (summaryHeader d @ lightSection d @ temperatureSection d metric @ humiditySection d
      @ moistureSection d @ conductivitySection d @ imageSection d)"
    by (metis append.assoc sublist_appendI)
  then show ?thesis
    unfolding formatCareSummary_pieces_sections
    using pos by (simp only: lightSection_def if_True)
qed

text \<open>
  C4, as amended. When the upper bound is positive and the sum of the two bounds fits
  Go's 64-bit \<open>int\<close>, the care summary puts the tag of \<open>interpretLightLevel\<close> right after
  the range, and the tag is chosen by the truncated midpoint \<open>(min + max) / 2\<close> of the
  bounds: below 2000 the low-light tag, from 2000 and below 10000 the medium tag, from
  10000 and below 25000 the bright tag, from 25000 the full-sun tag. The midpoints 1999
  and 2000, 9999 and 10000, 24999 and 25000 get different tags.
\<close>

theorem light_tag_by_midpoint:
  "0 < MaxLightLux d \<Longrightarrow> int64_range (MinLightLux d + MaxLightLux d) \<Longrightarrow>
   sublist
     [Lit ''**Light**: '', ArgD (MinLightLux d), Lit '' - '', ArgD (MaxLightLux d), Lit '' lux'',
      Lit (interpretLightLevel (MinLightLux d) (MaxLightLux d)), Lit ''\<newline>\<newline>'']
     (formatCareSummary_pieces d metric)
   \<and> (let mid = (MinLightLux d + MaxLightLux d) sdiv 2;
           tag = interpretLightLevel (MinLightLux d) (MaxLightLux d)
       in (mid < 2000 \<longrightarrow> tag = '' (Low light - suitable for shade-tolerant plants)'')
        \<and> (2000 \<le> mid \<and> mid < 10000 \<longrightarrow> tag = '' (Medium indirect light - typical indoor lighting)'')
        \<and> (10000 \<le> mid \<and> mid < 25000 \<longrightarrow> tag = '' (Bright indirect light - near windows)'')
        \<and> (25000 \<le> mid \<longrightarrow> tag = '' (Full sun or very bright light - direct sunlight)''))
   \<and> interpretLightLevel 1999 1999 = '' (Low light - suitable for shade-tolerant plants)''
   \<and> interpretLightLevel 2000 2000 = '' (Medium indirect light - typical indoor lighting)''
   \<and> interpretLightLevel 9999 9999 = '' (Medium indirect light - typical indoor lighting)''
   \<and> interpretLightLevel 10000 10000 = '' (Bright indirect light - near windows)''
   \<and> interpretLightLevel 24999 24999 = '' (Bright indirect light - near windows)''
   \<and> interpretLightLevel 25000 25000 = '' (Full sun or very bright light - direct sunlight)''"
proof (intro conjI)
  assume pos: "0 < MaxLightLux d" and fits: "int64_range (MinLightLux d + MaxLightLux d)"
  from pos show "sublist
     [Lit ''**Light**: '', ArgD (MinLightLux d), Lit '' - '', ArgD (MaxLightLux d), Lit '' lux'',
      Lit (interpretLightLevel (MinLightLux d) (MaxLightLux d)), Lit ''\<newline>\<newline>'']
     (formatCareSummary_pieces d metric)"
    by (rule light_line_in_summary)
  from interpretLightLevel_ladder [of "MinLightLux d" "MaxLightLux d"] wrap64_in_range [OF fits]
  show "(let mid = (MinLightLux d + MaxLightLux d) sdiv 2;
           tag = interpretLightLevel (MinLightLux d) (MaxLightLux d)
       in (mid < 2000 \<longrightarrow> tag = '' (Low light - suitable for shade-tolerant plants)'')
        \<and> (2000 \<le> mid \<and> mid < 10000 \<longrightarrow> tag = '' (Medium indirect light - typical indoor lighting)'')
        \<and> (10000 \<le> mid \<and> mid < 25000 \<longrightarrow> tag = '' (Bright indirect light - near windows)'')
        \<and> (25000 \<le> mid \<longrightarrow> tag = '' (Full sun or very bright light - direct sunlight)''))"
    by simp
qed (simp_all add: interpretLightLevel_def wrap64_def signed_divide_int_def)

text \<open>
  The claim as stated covers every range with a positive upper bound. With the bounds 1
  and 9223372036854775807 the sum wraps around to the least \<open>int\<close>, the quotient is
  negative, and the tag is the low-light one, although the midpoint of the bounds is
  4611686018427387904.
\<close>

theorem light_tag_by_midpoint_counterexample:
  "0 < MaxLightLux (exampleDetails\<lparr>MinLightLux := 1, MaxLightLux := 9223372036854775807\<rparr>)
   \<and> int64_range 1 \<and> int64_range 9223372036854775807
   \<and> (1 + 9223372036854775807) sdiv 2 = (4611686018427387904 :: int)
   \<and> (25000 :: int) \<le> 4611686018427387904
   \<and> wrap64 (1 + 9223372036854775807) sdiv 2 = - 4611686018427387904
   \<and> interpretLightLevel 1 9223372036854775807 = '' (Low light - suitable for shade-tolerant plants)''
   \<and> sublist
       [Lit ''**Light**: '', ArgD 1, Lit '' - '', ArgD 9223372036854775807, Lit '' lux'',
        Lit '' (Low light - suitable for shade-tolerant plants)'', Lit ''\<newline>\<newline>'']
       (formatCareSummary_pieces (exampleDetails\<lparr>MinLightLux := 1, MaxLightLux := 9223372036854775807\<rparr>) True)"
proof -
  have tag: "interpretLightLevel 1 9223372036854775807 = '' (Low light - suitable for shade-tolerant plants)''"
    by (simp add: interpretLightLevel_def wrap64_def signed_divide_int_def)
  have "0 < MaxLightLux (exampleDetails\<lparr>MinLightLux := 1, MaxLightLux := 9223372036854775807\<rparr>)"
    by simp
  from light_line_in_summary [OF this, of True] tag show ?thesis
    by (simp add: int64_range_def wrap64_def signed_divide_int_def)
qed

theorem light_tag_by_midpoint_witness:
  "0 < MaxLightLux exampleDetails
   \<and> int64_range (MinLightLux exampleDetails + MaxLightLux exampleDetails)
   \<and> (1500 + 3000) sdiv 2 = (2250 :: int)
   \<and> sublist
     [Lit ''**Light**: '', ArgD 1500, Lit '' - '', ArgD 3000, Lit '' lux'',
      Lit '' (Medium indirect light - typical indoor lighting)'', Lit ''\<newline>\<newline>'']
     (formatCareSummary_pieces exampleDetails True)"
proof -
  have pos: "0 < MaxLightLux exampleDetails"
    and fits: "int64_range (MinLightLux exampleDetails + MaxLightLux exampleDetails)"
    by (simp_all add: exampleDetails_def int64_range_def)
  have vals: "MinLightLux exampleDetails = 1500" "MaxLightLux exampleDetails = 3000"
    by (simp_all add: exampleDetails_def)
  have mid: "(1500 + 3000) sdiv 2 = (2250 :: int)"
    by (simp add: signed_divide_int_def)
  from light_tag_by_midpoint [OF pos fits, of True] pos fits
  show ?thesis
    unfolding vals by (auto simp: mid Let_def)
qed

lemma interpretMoistureLevel_ladder:
  "(let avg = wrap64 (mn + mx) sdiv 2;
           tag = interpretMoistureLevel mn mx
       in (avg < 20 \<longrightarrow> tag = '' (Dry soil - water sparingly)'')
        \<and> (20 \<le> avg \<and> avg < 40 \<longrightarrow> tag = '' (Slightly moist - let soil dry between waterings)'')
        \<and> (40 \<le> avg \<and> avg < 60 \<longrightarrow> tag = '' (Evenly moist - keep soil consistently moist)'')
        \<and> (60 \<le> avg \<longrightarrow> tag = '' (Very moist - likes wet conditions)''))"
  by (simp add: interpretMoistureLevel_def Let_def)

lemma moisture_line_in_summary:
  "0 < MaxSoilMoist d \<Longrightarrow>
   sublist
     [Lit ''**Soil Moisture**: '', ArgD (MinSoilMoist d), Lit '' - '', ArgD (MaxSoilMoist d), Lit ''%'',
      Lit (interpretMoistureLevel (MinSoilMoist d) (MaxSoilMoist d)), Lit ''\<newline>\<newline>'']
     (formatCareSummary_pieces d metric)"
proof -
  assume pos: "0 < MaxSoilMoist d"
  have "sublist (moistureSection d)
     (summaryHeader d @ lightSection d @ temperatureSection d metric @ humiditySection d
      @ moistureSection d @ conductivitySection d @ imageSection d)"
    by (metis append.assoc sublist_appendI)
  then show ?thesis
    unfolding formatCareSummary_pieces_sections
    using pos by (simp only: moistureSection_def if_True)
qed

text \<open>
  C5, as amended. When the upper bound is positive and the sum of the two bounds fits
  Go's 64-bit \<open>int\<close>, the care summary puts the tag of \<open>interpretMoistureLevel\<close> right after
  the range, and the tag is chosen by the truncated midpoint \<open>(min + max) / 2\<close> of the
  bounds: below 20 the dry tag, from 20 and below 40 the let-dry-between-waterings tag,
  from 40 and below 60 the keep-consistently-moist tag, from 60 the likes-wet-conditions
  tag. The midpoints 19 and 20, 39 and 40, 59 and 60 get different tags.
\<close>

theorem moisture_tag_by_midpoint:
  "0 < MaxSoilMoist d \<Longrightarrow> int64_range (MinSoilMoist d + MaxSoilMoist d) \<Longrightarrow>
   sublist
     [Lit ''**Soil Moisture**: '', ArgD (MinSoilMoist d), Lit '' - '', ArgD (MaxSoilMoist d), Lit ''%'',
      Lit (interpretMoistureLevel (MinSoilMoist d) (MaxSoilMoist d)), Lit ''\<newline>\<newline>'']
     (formatCareSummary_pieces d metric)
   \<and> (let mid = (MinSoilMoist d + MaxSoilMoist d) sdiv 2;
           tag = interpretMoistureLevel (MinSoilMoist d) (MaxSoilMoist d)
       in (mid < 20 \<longrightarrow> tag = '' (Dry soil - water sparingly)'')
        \<and> (20 \<le> mid \<and> mid < 40 \<longrightarrow> tag = '' (Slightly moist - let soil dry between waterings)'')
        \<and> (40 \<le> mid \<and> mid < 60 \<longrightarrow> tag = '' (Evenly moist - keep soil consistently moist)'')
        \<and> (60 \<le> mid \<longrightarrow> tag = '' (Very moist - likes wet conditions)''))
   \<and> interpretMoistureLevel 19 19 = '' (Dry soil - water sparingly)''
   \<and> interpretMoistureLevel 20 20 = '' (Slightly moist - let soil dry between waterings)''
   \<and> interpretMoistureLevel 39 39 = '' (Slightly moist - let soil dry between waterings)''
   \<and> interpretMoistureLevel 40 40 = '' (Evenly moist - keep soil consistently moist)''
   \<and> interpretMoistureLevel 59 59 = '' (Evenly moist - keep soil consistently moist)''
   \<and> interpretMoistureLevel 60 60 = '' (Very moist - likes wet conditions)''"
proof (intro conjI)
  assume pos: "0 < MaxSoilMoist d" and fits: "int64_range (MinSoilMoist d + MaxSoilMoist d)"
  from pos show "sublist
     [Lit ''**Soil Moisture**: '', ArgD (MinSoilMoist d), Lit '' - '', ArgD (MaxSoilMoist d), Lit ''%'',
      Lit (interpretMoistureLevel (MinSoilMoist d) (MaxSoilMoist d)), Lit ''\<newline>\<newline>'']
     (formatCareSummary_pieces d metric)"
    by (rule moisture_line_in_summary)
  from interpretMoistureLevel_ladder [of "MinSoilMoist d" "MaxSoilMoist d"] wrap64_in_range [OF fits]
  show "(let mid = (MinSoilMoist d + MaxSoilMoist d) sdiv 2;
           tag = interpretMoistureLevel (MinSoilMoist d) (MaxSoilMoist d)
       in (mid < 20 \<longrightarrow> tag = '' (Dry soil - water sparingly)'')
        \<and> (20 \<le> mid \<and> mid < 40 \<longrightarrow> tag = '' (Slightly moist - let soil dry between waterings)'')
        \<and> (40 \<le> mid \<and> mid < 60 \<longrightarrow> tag = '' (Evenly moist - keep soil consistently moist)'')
        \<and> (60 \<le> mid \<longrightarrow> tag = '' (Very moist - likes wet conditions)''))"
    by simp
qed (simp_all add: interpretMoistureLevel_def wrap64_def signed_divide_int_def)

text \<open>
  The claim as stated covers every range with a positive upper bound. With the bounds 1
  and 9223372036854775807 the sum wraps around to the least \<open>int\<close>, the quotient is
  negative, and the tag is the dry one, although the midpoint of the bounds is
  4611686018427387904.
\<close>

theorem moisture_tag_by_midpoint_counterexample:
  "0 < MaxSoilMoist (exampleDetails\<lparr>MinSoilMoist := 1, MaxSoilMoist := 9223372036854775807\<rparr>)
   \<and> int64_range 1 \<and> int64_range 9223372036854775807
   \<and> (1 + 9223372036854775807) sdiv 2 = (4611686018427387904 :: int)
   \<and> (60 :: int) \<le> 4611686018427387904
   \<and> wrap64 (1 + 9223372036854775807) sdiv 2 = - 4611686018427387904
   \<and> interpretMoistureLevel 1 9223372036854775807 = '' (Dry soil - water sparingly)''
   \<and> sublist
       [Lit ''**Soil Moisture**: '', ArgD 1, Lit '' - '', ArgD 9223372036854775807, Lit ''%'',
        Lit '' (Dry soil - water sparingly)'', Lit ''\<newline>\<newline>'']
       (formatCareSummary_pieces (exampleDetails\<lparr>MinSoilMoist := 1, MaxSoilMoist := 9223372036854775807\<rparr>) True)"
proof -
  have tag: "interpretMoistureLevel 1 9223372036854775807 = '' (Dry soil - water sparingly)''"
    by (simp add: interpretMoistureLevel_def wrap64_def signed_divide_int_def)
  have "0 < MaxSoilMoist (exampleDetails\<lparr>MinSoilMoist := 1, MaxSoilMoist := 9223372036854775807\<rparr>)"
    by simp
  from moisture_line_in_summary [OF this, of True] tag show ?thesis
    by (simp add: int64_range_def wrap64_def signed_divide_int_def)
qed

theorem moisture_tag_by_midpoint_witness:
  "0 < MaxSoilMoist exampleDetails
   \<and> int64_range (MinSoilMoist exampleDetails + MaxSoilMoist exampleDetails)
   \<and> (25 + 60) sdiv 2 = (42 :: int)
   \<and> sublist
     [Lit ''**Soil Moisture**: '', ArgD 25, Lit '' - '', ArgD 60, Lit ''%'',
      Lit '' (Evenly moist - keep soil consistently moist)'', Lit ''\<newline>\<newline>'']
     (formatCareSummary_pieces exampleDetails True)"
proof -
  have pos: "0 < MaxSoilMoist exampleDetails"
    and fits: "int64_range (MinSoilMoist exampleDetails + MaxSoilMoist exampleDetails)"
    by (simp_all add: exampleDetails_def int64_range_def)
  have vals: "MinSoilMoist exampleDetails = 25" "MaxSoilMoist exampleDetails = 60"
    by (simp_all add: exampleDetails_def)
  have mid: "(25 + 60) sdiv 2 = (42 :: int)"
    by (simp add: signed_divide_int_def)
  from moisture_tag_by_midpoint [OF pos fits, of True] pos fits
  show ?thesis
    unfolding vals by (auto simp: mid Let_def)
qed

section \<open>Rendered numbers\<close>

lemma digitChar_not_dot:
  assumes "n < 10"
  shows "digitChar n \<noteq> CHR ''.''" and "CHR ''.'' \<noteq> digitChar n"
proof -
  from assms have "nat n \<in> {0, 1, 2, 3, 4, 5, 6, 7, 8, 9}" by auto
  then show "digitChar n \<noteq> CHR ''.''" by (auto simp: digitChar_def)
  then show "CHR ''.'' \<noteq> digitChar n" by simp
qed

lemma digits_no_dot: "CHR ''.'' \<notin> set (digits n)"
proof (induction n rule: digits.induct)
  case (1 n)
  show ?case
  proof (cases "n < 10")
    case True
    then show ?thesis by (simp add: digits.simps [of n] digitChar_not_dot)
  next
    case False
    have "n mod 10 < 10" by simp
    with 1 False show ?thesis by (simp add: digits.simps [of n] digitChar_not_dot)
  qed
qed

lemma length_digits: "0 < p \<Longrightarrow> n < 10 ^ p \<Longrightarrow> length (digits n) \<le> p"
proof (induction n arbitrary: p rule: digits.induct)
  case (1 n)
  show ?case
  proof (cases "n < 10")
    case True
    with 1(2) show ?thesis by (simp add: digits.simps [of n])
  next
    case False
    have p: "1 < p"
    proof (rule ccontr)
      assume "\<not> 1 < p"
      with 1(2) have "p = 1" by simp
      with 1(3) False show False by simp
    qed
    then obtain q where q: "p = Suc q" "0 < q" by (cases p) auto
    from 1(3) q have "n < 10 * 10 ^ q" by simp
    then have "n div 10 < 10 ^ q" by (simp add: div_less_iff_less_mult mult.commute)
    with 1(1) [OF False q(2)] have "length (digits (n div 10)) \<le> q" .
    with False q show ?thesis by (simp add: digits.simps [of n])
  qed
qed

lemma decimals_append: "CHR ''.'' \<notin> set xs \<Longrightarrow> decimals (xs @ ys) = decimals ys"
  by (induction xs) auto

lemma decimals_fmtAbs: "decimals (fmtAbs p a) = (if p = 0 then None else Some p)"
proof (cases "p = 0")
  case True
  have "decimals (digits n @ []) = decimals []" for n
    by (rule decimals_append) (rule digits_no_dot)
  with True show ?thesis by (simp add: fmtAbs_def Let_def)
next
  case False
  have "length (digits (n mod 10 ^ p)) \<le> p" for n :: int
    using False by (intro length_digits) auto
  then show ?thesis using False
    by (simp add: fmtAbs_def Let_def decimals_append digits_no_dot)
qed

lemma decimals_fmtFloat_Finite:
  "decimals (fmtFloat p (Finite r)) = (if p = 0 then None else Some p)"
  by (simp add: fmtFloat_def decimals_fmtAbs)

lemma toF_examples:
  "fadd (fdiv (fmul (Finite 0) (Finite 9)) (Finite 5)) (Finite 32) = Finite 32"
  "fadd (fdiv (fmul (Finite 100) (Finite 9)) (Finite 5)) (Finite 32) = Finite 212"
  "fadd (fdiv (fmul (Finite 18) (Finite 9)) (Finite 5)) (Finite 32)
     = Finite (2265873562520781 / 35184372088832)"
  "fadd (fdiv (fmul (Finite 27) (Finite 9)) (Finite 5)) (Finite 32)
     = Finite (2835860390359859 / 35184372088832)"
  by code_simp+

lemma fmt_examples:
  "fmtFloat 1 (Finite 32) = ''32.0''"
  "fmtFloat 1 (Finite 212) = ''212.0''"
  "fmtFloat 1 (Finite (2265873562520781 / 35184372088832)) = ''64.4''"
  "fmtFloat 1 (Finite (2835860390359859 / 35184372088832)) = ''80.6''"
  "fmtFloat 1 (Finite 18) = ''18.0''"
  "fmtFloat 1 (Finite 27) = ''27.0''"
  by code_simp+

lemma render_append: "render (xs @ ys) = render xs @ render ys"
  by (simp add: render_def)

lemma sublist_render: "sublist xs ys \<Longrightarrow> sublist (render xs) (render ys)"
  unfolding sublist_def by (metis render_append)

section \<open>The temperature line\<close>

text \<open>
  C7. When the upper temperature bound is positive, the care summary renders both bounds
  with the verb \<open>%.1f\<close>, which prints one decimal: with \<open>metric\<close> the bounds themselves
  and the Celsius unit; otherwise each bound \<open>c\<close> converted as \<open>c * 9 / 5 + 32\<close> in
  \<open>float64\<close> arithmetic and the Fahrenheit unit, with no other operation on the value.
  0 converts to 32 and 100 to 212 exactly; the bounds 18.0 and 27.0 are rendered as 64.4
  and 80.6.
\<close>

theorem temperature_rendering:
  "fgt (MaxTemp d) (Finite 0) \<Longrightarrow>
   sublist
     [Lit ''**Temperature**: '', ArgF 1 (MinTemp d), Lit '' - '', ArgF 1 (MaxTemp d),
      ArgS (degree @ ''C''), Lit ''\<newline>\<newline>'']
     (formatCareSummary_pieces d True)
   \<and> sublist
     [Lit ''**Temperature**: '',
      ArgF 1 (fadd (fdiv (fmul (MinTemp d) (Finite 9)) (Finite 5)) (Finite 32)), Lit '' - '',
      ArgF 1 (fadd (fdiv (fmul (MaxTemp d) (Finite 9)) (Finite 5)) (Finite 32)),
      ArgS (degree @ ''F''), Lit ''\<newline>\<newline>'']
     (formatCareSummary_pieces d False)
   \<and> (\<forall>r. decimals (fmtFloat 1 (Finite r)) = Some 1)
   \<and> fadd (fdiv (fmul (Finite 0) (Finite 9)) (Finite 5)) (Finite 32) = Finite 32
   \<and> fadd (fdiv (fmul (Finite 100) (Finite 9)) (Finite 5)) (Finite 32) = Finite 212
   \<and> fmtFloat 1 (fadd (fdiv (fmul (Finite 0) (Finite 9)) (Finite 5)) (Finite 32)) = ''32.0''
   \<and> fmtFloat 1 (fadd (fdiv (fmul (Finite 100) (Finite 9)) (Finite 5)) (Finite 32)) = ''212.0''
   \<and> fmtFloat 1 (fadd (fdiv (fmul (Finite 18) (Finite 9)) (Finite 5)) (Finite 32)) = ''64.4''
   \<and> fmtFloat 1 (fadd (fdiv (fmul (Finite 27) (Finite 9)) (Finite 5)) (Finite 32)) = ''80.6''"
proof (intro conjI)
  assume pos: "fgt (MaxTemp d) (Finite 0)"
  have sub: "sublist (temperatureSection d metric) (formatCareSummary_pieces d metric)" for metric
    unfolding formatCareSummary_pieces_sections by (metis append.assoc sublist_appendI)
  from sub [of True] pos show "sublist
     [Lit ''**Temperature**: '', ArgF 1 (MinTemp d), Lit '' - '', ArgF 1 (MaxTemp d),
      ArgS (degree @ ''C''), Lit ''\<newline>\<newline>'']
     (formatCareSummary_pieces d True)"
    by (simp add: temperatureSection_def tempUnit_def)
  from sub [of False] pos show "sublist
     [Lit ''**Temperature**: '',
      ArgF 1 (fadd (fdiv (fmul (MinTemp d) (Finite 9)) (Finite 5)) (Finite 32)), Lit '' - '',
      ArgF 1 (fadd (fdiv (fmul (MaxTemp d) (Finite 9)) (Finite 5)) (Finite 32)),
      ArgS (degree @ ''F''), Lit ''\<newline>\<newline>'']
     (formatCareSummary_pieces d False)"
    by (simp add: temperatureSection_def tempUnit_def)
next
  show "\<forall>r. decimals (fmtFloat 1 (Finite r)) = Some 1"
    by (simp add: decimals_fmtFloat_Finite)
qed (simp_all only: toF_examples fmt_examples)

theorem temperature_rendering_witness:
  "fgt (MaxTemp exampleDetails) (Finite 0)
   \<and> sublist (''**Temperature**: 18.0 - 27.0'' @ degree @ ''C\<newline>\<newline>'')
       (formatCareSummary exampleDetails True)
   \<and> sublist (''**Temperature**: 64.4 - 80.6'' @ degree @ ''F\<newline>\<newline>'')
       (formatCareSummary exampleDetails False)"
proof -
  have pos: "fgt (MaxTemp exampleDetails) (Finite 0)"
    by (simp add: exampleDetails_def fgt_def)
  note t = temperature_rendering [OF pos]
  from t have "sublist
     (render [Lit ''**Temperature**: '', ArgF 1 (MinTemp exampleDetails), Lit '' - '',
        ArgF 1 (MaxTemp exampleDetails), ArgS (degree @ ''C''), Lit ''\<newline>\<newline>''])
     (formatCareSummary exampleDetails True)"
    unfolding formatCareSummary_def by (intro sublist_render) simp
  moreover from t have "sublist
     (render [Lit ''**Temperature**: '',
        ArgF 1 (fadd (fdiv (fmul (MinTemp exampleDetails) (Finite 9)) (Finite 5)) (Finite 32)),
        Lit '' - '',
        ArgF 1 (fadd (fdiv (fmul (MaxTemp exampleDetails) (Finite 9)) (Finite 5)) (Finite 32)),
        ArgS (degree @ ''F''), Lit ''\<newline>\<newline>''])
     (formatCareSummary exampleDetails False)"
    unfolding formatCareSummary_def by (intro sublist_render) simp
  ultimately show ?thesis
    using pos
    by (simp add: render_def exampleDetails_def toF_examples fmt_examples [unfolded One_nat_def])
qed

section \<open>The entries the checks append\<close>

text \<open>
  Each check appends to the slices it is given; so the slices \<open>compareConditions\<close> ends
  with are the entries of the four checks one after the other.
\<close>

lemmas Sprintf_eval = Sprintf_def flush_def digitVal_def cross_def check_def degree_def micro_def seedling_def

lemma checkMoisture_append:
  "checkMoisture d c (issues, ok) =
     (issues @ fst (checkMoisture d c ([], [])), ok @ snd (checkMoisture d c ([], [])))"
  by (simp add: checkMoisture_def Let_def split: option.split)

lemma checkTemperature_append:
  "checkTemperature d c (issues, ok) =
     (issues @ fst (checkTemperature d c ([], [])), ok @ snd (checkTemperature d c ([], [])))"
  by (simp add: checkTemperature_def Let_def split: option.split)

lemma checkLight_append:
  "checkLight d c (issues, ok) =
     (issues @ fst (checkLight d c ([], [])), ok @ snd (checkLight d c ([], [])))"
  by (simp add: checkLight_def Let_def split: option.split)

lemma checkHumidity_append:
  "checkHumidity d c (issues, ok) =
     (issues @ fst (checkHumidity d c ([], [])), ok @ snd (checkHumidity d c ([], [])))"
  by (simp add: checkHumidity_def Let_def split: option.split)

lemma compareChecks_entries:
  "compareChecks d c =
     (fst (checkMoisture d c ([], [])) @ fst (checkTemperature d c ([], []))
        @ fst (checkLight d c ([], [])) @ fst (checkHumidity d c ([], [])),
      snd (checkMoisture d c ([], [])) @ snd (checkTemperature d c ([], []))
        @ snd (checkLight d c ([], [])) @ snd (checkHumidity d c ([], [])))"
proof -
  obtain i1 o1 where m: "checkMoisture d c ([], []) = (i1, o1)" by (cases "checkMoisture d c ([], [])")
  obtain i2 o2 where t: "checkTemperature d c ([], []) = (i2, o2)" by (cases "checkTemperature d c ([], [])")
  obtain i3 o3 where l: "checkLight d c ([], []) = (i3, o3)" by (cases "checkLight d c ([], [])")
  obtain i4 o4 where h: "checkHumidity d c ([], []) = (i4, o4)" by (cases "checkHumidity d c ([], [])")
  show ?thesis
    unfolding compareChecks_def m
    by (simp add: checkTemperature_append [of d c i1 o1] t checkLight_append [of d c "i1 @ i2" "o1 @ o2"] l
        checkHumidity_append [of d c "i1 @ i2 @ i3" "o1 @ o2 @ o3"] h)
qed

lemma moisture_lines_labels:
  "L \<in> set (fst (checkMoisture d c ([], []))) \<union> set (snd (checkMoisture d c ([], []))) \<Longrightarrow>
     mentions ''**Soil Moisture'' L \<and> \<not> mentions ''**Temperature'' L
     \<and> \<not> mentions ''**Light'' L \<and> \<not> mentions ''**Humidity'' L
     \<and> \<not> mentions ''Fertilizer'' L \<and> \<not> mentions ''EC'' L \<and> \<not> mentions ''onductivity'' L"
  by (auto simp: checkMoisture_def Let_def Sprintf_eval contains_def split: option.splits if_splits)

lemma temperature_lines_labels:
  "L \<in> set (fst (checkTemperature d c ([], []))) \<union> set (snd (checkTemperature d c ([], []))) \<Longrightarrow>
     \<not> mentions ''**Soil Moisture'' L \<and> mentions ''**Temperature'' L
     \<and> \<not> mentions ''**Light'' L \<and> \<not> mentions ''**Humidity'' L
     \<and> \<not> mentions ''Fertilizer'' L \<and> \<not> mentions ''EC'' L \<and> \<not> mentions ''onductivity'' L"
  by (auto simp: checkTemperature_def Let_def Sprintf_eval contains_def split: option.splits if_splits)

lemma light_lines_labels:
  "L \<in> set (fst (checkLight d c ([], []))) \<union> set (snd (checkLight d c ([], []))) \<Longrightarrow>
     \<not> mentions ''**Soil Moisture'' L \<and> \<not> mentions ''**Temperature'' L
     \<and> mentions ''**Light'' L \<and> \<not> mentions ''**Humidity'' L
     \<and> \<not> mentions ''Fertilizer'' L \<and> \<not> mentions ''EC'' L \<and> \<not> mentions ''onductivity'' L"
  by (auto simp: checkLight_def Let_def Sprintf_eval contains_def split: option.splits if_splits)

lemma humidity_lines_labels:
  "L \<in> set (fst (checkHumidity d c ([], []))) \<union> set (snd (checkHumidity d c ([], []))) \<Longrightarrow>
     \<not> mentions ''**Soil Moisture'' L \<and> \<not> mentions ''**Temperature'' L
     \<and> \<not> mentions ''**Light'' L \<and> mentions ''**Humidity'' L
     \<and> \<not> mentions ''Fertilizer'' L \<and> \<not> mentions ''EC'' L \<and> \<not> mentions ''onductivity'' L"
  by (auto simp: checkHumidity_def Let_def Sprintf_eval contains_def split: option.splits if_splits)

lemma moisture_issue_floatArgs:
  "L \<in> set (fst (checkMoisture d c ([], []))) \<Longrightarrow>
   \<exists>x. c ''moisture'' = Some (VFloat64 x) \<and>
     (let mn = float64_of_int (MinSoilMoist d); mx = float64_of_int (MaxSoilMoist d)
      in floatArgs L = [(1, x), (0, mn), (0, mx), (1, fsub mn x)]
         \<or> floatArgs L = [(1, x), (0, mn), (0, mx), (1, fsub x mx)])"
  by (auto simp: checkMoisture_def asFloat64_def Let_def Sprintf_eval
      split: option.splits go_value.splits if_splits)

lemma temperature_issue_floatArgs:
  "L \<in> set (fst (checkTemperature d c ([], []))) \<Longrightarrow>
   \<exists>x. c ''temperature'' = Some (VFloat64 x) \<and>
     (let mn = MinTemp d; mx = MaxTemp d
      in floatArgs L = [(1, x), (1, mn), (1, mx), (1, fsub mn x)]
         \<or> floatArgs L = [(1, x), (1, mn), (1, mx), (1, fsub x mx)])"
  by (auto simp: checkTemperature_def asFloat64_def Let_def Sprintf_eval
      split: option.splits go_value.splits if_splits)

lemma light_issue_floatArgs:
  "L \<in> set (fst (checkLight d c ([], []))) \<Longrightarrow>
   \<exists>x. c ''light_lux'' = Some (VFloat64 x) \<and>
     (let mn = float64_of_int (MinLightLux d); mx = float64_of_int (MaxLightLux d)
      in floatArgs L = [(0, x), (0, mn), (0, mx), (0, fsub mn x)]
         \<or> floatArgs L = [(0, x), (0, mn), (0, mx), (0, fsub x mx)])"
  by (auto simp: checkLight_def asFloat64_def Let_def Sprintf_eval
      split: option.splits go_value.splits if_splits)

lemma humidity_issue_floatArgs:
  "L \<in> set (fst (checkHumidity d c ([], []))) \<Longrightarrow>
   \<exists>x. c ''humidity'' = Some (VFloat64 x) \<and>
     (let mn = float64_of_int (MinEnvHumid d); mx = float64_of_int (MaxEnvHumid d)
      in floatArgs L = [(1, x), (0, mn), (0, mx), (1, fsub mn x)]
         \<or> floatArgs L = [(1, x), (0, mn), (0, mx), (1, fsub x mx)])"
  by (auto simp: checkHumidity_def asFloat64_def Let_def Sprintf_eval
      split: option.splits go_value.splits if_splits)

lemma mentions_append: "mentions w (xs @ ys) = (mentions w xs \<or> mentions w ys)"
  by (induction w xs rule: mentions.induct) auto

lemma mentions_lines:
  "\<not> contains w ''\<newline>\<newline>'' \<Longrightarrow>
   mentions w (concat (map (\<lambda>l. l @ [Lit ''\<newline>\<newline>'']) ls)) = (\<exists>L \<in> set ls. mentions w L)"
  by (induction ls) (auto simp: mentions_append)

section \<open>Labels in the care summary\<close>

lemma contains_longer: "contains (u @ v) s \<Longrightarrow> contains u s"
  by (auto simp: contains_def list_ex_iff prefix_def)

lemma tags_no_stars:
  "\<not> contains (CHR ''*'' # CHR ''*'' # w) (interpretLightLevel a b)"
  "\<not> contains (CHR ''*'' # CHR ''*'' # w) (interpretMoistureLevel a b)"
proof -
  have "\<not> contains ''**'' (interpretLightLevel a b)" "\<not> contains ''**'' (interpretMoistureLevel a b)"
    by (simp_all add: interpretLightLevel_def interpretMoistureLevel_def Let_def contains_def)
  then show "\<not> contains (CHR ''*'' # CHR ''*'' # w) (interpretLightLevel a b)"
    "\<not> contains (CHR ''*'' # CHR ''*'' # w) (interpretMoistureLevel a b)"
    using contains_longer [of "''**''" w] by auto
qed

lemmas section_defs = summaryHeader_def lightSection_def temperatureSection_def
  humiditySection_def moistureSection_def conductivitySection_def imageSection_def

lemma light_label_sections:
  "\<not> mentions ''**Light'' (summaryHeader d)"
  "mentions ''**Light'' (lightSection d) = (0 < MaxLightLux d)"
  "\<not> mentions ''**Light'' (temperatureSection d metric)"
  "\<not> mentions ''**Light'' (humiditySection d)"
  "\<not> mentions ''**Light'' (moistureSection d)"
  "\<not> mentions ''**Light'' (conductivitySection d)"
  "\<not> mentions ''**Light'' (imageSection d)"
  by (simp_all add: section_defs tags_no_stars micro_def) (simp_all add: contains_def)

lemma temperature_label_sections:
  "\<not> mentions ''**Temperature'' (summaryHeader d)"
  "\<not> mentions ''**Temperature'' (lightSection d)"
  "mentions ''**Temperature'' (temperatureSection d metric) = fgt (MaxTemp d) (Finite 0)"
  "\<not> mentions ''**Temperature'' (humiditySection d)"
  "\<not> mentions ''**Temperature'' (moistureSection d)"
  "\<not> mentions ''**Temperature'' (conductivitySection d)"
  "\<not> mentions ''**Temperature'' (imageSection d)"
  by (simp_all add: section_defs tags_no_stars micro_def) (simp_all add: contains_def)

lemma humidity_label_sections:
  "\<not> mentions ''**Humidity'' (summaryHeader d)"
  "\<not> mentions ''**Humidity'' (lightSection d)"
  "\<not> mentions ''**Humidity'' (temperatureSection d metric)"
  "mentions ''**Humidity'' (humiditySection d) = (0 < MaxEnvHumid d)"
  "\<not> mentions ''**Humidity'' (moistureSection d)"
  "\<not> mentions ''**Humidity'' (conductivitySection d)"
  "\<not> mentions ''**Humidity'' (imageSection d)"
  by (simp_all add: section_defs tags_no_stars micro_def) (simp_all add: contains_def)

lemma moisture_label_sections:
  "\<not> mentions ''**Soil Moisture'' (summaryHeader d)"
  "\<not> mentions ''**Soil Moisture'' (lightSection d)"
  "\<not> mentions ''**Soil Moisture'' (temperatureSection d metric)"
  "\<not> mentions ''**Soil Moisture'' (humiditySection d)"
  "mentions ''**Soil Moisture'' (moistureSection d) = (0 < MaxSoilMoist d)"
  "\<not> mentions ''**Soil Moisture'' (conductivitySection d)"
  "\<not> mentions ''**Soil Moisture'' (imageSection d)"
  by (simp_all add: section_defs tags_no_stars micro_def) (simp_all add: contains_def)

lemma conductivity_label_sections:
  "\<not> mentions ''**Fertilizer'' (summaryHeader d)"
  "\<not> mentions ''**Fertilizer'' (lightSection d)"
  "\<not> mentions ''**Fertilizer'' (temperatureSection d metric)"
  "\<not> mentions ''**Fertilizer'' (humiditySection d)"
  "\<not> mentions ''**Fertilizer'' (moistureSection d)"
  "mentions ''**Fertilizer'' (conductivitySection d) = (0 < MaxSoilEC d)"
  "\<not> mentions ''**Fertilizer'' (imageSection d)"
  by (simp_all add: section_defs tags_no_stars micro_def) (simp_all add: contains_def)

lemma summary_mentions:
  "mentions ''**Light'' (formatCareSummary_pieces d metric) = (0 < MaxLightLux d)"
  "mentions ''**Temperature'' (formatCareSummary_pieces d metric) = fgt (MaxTemp d) (Finite 0)"
  "mentions ''**Humidity'' (formatCareSummary_pieces d metric) = (0 < MaxEnvHumid d)"
  "mentions ''**Soil Moisture'' (formatCareSummary_pieces d metric) = (0 < MaxSoilMoist d)"
  "mentions ''**Fertilizer'' (formatCareSummary_pieces d metric) = (0 < MaxSoilEC d)"
  unfolding formatCareSummary_pieces_sections mentions_append
  by (simp_all only: light_label_sections temperature_label_sections humidity_label_sections
      moisture_label_sections conductivity_label_sections simp_thms)

section \<open>Labels in the comparison report\<close>

lemma compareOutput_shape:
  "compareOutput d issues ok =
     [Lit ''# Condition Analysis for '', ArgS (Alias d), Lit ''\<newline>\<newline>'']
     @ (if issues = [] then []
        else Lit ''## Issues Detected\<newline>\<newline>''
             # concat (map (\<lambda>l. l @ [Lit ''\<newline>\<newline>'']) issues))
     @ (if ok = [] then []
        else Lit ''## Conditions Within Range\<newline>\<newline>''
             # concat (map (\<lambda>l. l @ [Lit ''\<newline>\<newline>'']) ok))
     @ (if issues = [] \<and> ok = [] then [Lit ''No conditions were provided for comparison.\<newline>'']
        else if issues = [] then
          [Lit (''\<newline>**Summary**: All monitored conditions are within ideal ranges! ''
                @ seedling @ ''\<newline>'')]
        else [Lit ''\<newline>**Summary**: '', ArgD (int (length issues)),
              Lit '' condition(s) need attention.\<newline>''])"
  by (simp add: compareOutput_def Let_def Sprintf_def flush_def digitVal_def)

lemma mentions_compareOutput:
  assumes "\<forall>s \<in> set compareLiterals. \<not> contains w s"
  shows "mentions w (compareOutput d issues ok) = (\<exists>L \<in> set issues \<union> set ok. mentions w L)"
  using assms unfolding compareOutput_shape
  by (auto simp: compareLiterals_def mentions_append mentions_lines)

lemma labels_not_in_compareLiterals:
  "\<forall>s \<in> set compareLiterals. \<not> contains ''**Soil Moisture'' s"
  "\<forall>s \<in> set compareLiterals. \<not> contains ''**Temperature'' s"
  "\<forall>s \<in> set compareLiterals. \<not> contains ''**Light'' s"
  "\<forall>s \<in> set compareLiterals. \<not> contains ''**Humidity'' s"
  "\<forall>s \<in> set compareLiterals. \<not> contains ''Fertilizer'' s"
  "\<forall>s \<in> set compareLiterals. \<not> contains ''EC'' s"
  "\<forall>s \<in> set compareLiterals. \<not> contains ''onductivity'' s"
  by (simp_all add: compareLiterals_def seedling_def) (simp_all add: contains_def)
lemma entries_empty: "entries st = {} \<longleftrightarrow> st = ([], [])"
  by (cases st) (auto simp: entries_def)

lemma mentions_compareConditions_pieces:
  assumes "\<forall>s \<in> set compareLiterals. \<not> contains w s"
  shows "mentions w (compareConditions_pieces d c) =
     (\<exists>L \<in> entries (checkMoisture d c ([], [])) \<union> entries (checkTemperature d c ([], []))
           \<union> entries (checkLight d c ([], [])) \<union> entries (checkHumidity d c ([], [])).
        mentions w L)"
  unfolding compareConditions_pieces_def compareChecks_entries prod.case
    mentions_compareOutput [OF assms] entries_def
  by (simp only: set_append Un_ac)

lemma entries_labels:
  "L \<in> entries (checkMoisture d c ([], [])) \<Longrightarrow>
     mentions ''**Soil Moisture'' L \<and> \<not> mentions ''**Temperature'' L
     \<and> \<not> mentions ''**Light'' L \<and> \<not> mentions ''**Humidity'' L
     \<and> \<not> mentions ''Fertilizer'' L \<and> \<not> mentions ''EC'' L \<and> \<not> mentions ''onductivity'' L"
  "L \<in> entries (checkTemperature d c ([], [])) \<Longrightarrow>
     \<not> mentions ''**Soil Moisture'' L \<and> mentions ''**Temperature'' L
     \<and> \<not> mentions ''**Light'' L \<and> \<not> mentions ''**Humidity'' L
     \<and> \<not> mentions ''Fertilizer'' L \<and> \<not> mentions ''EC'' L \<and> \<not> mentions ''onductivity'' L"
  "L \<in> entries (checkLight d c ([], [])) \<Longrightarrow>
     \<not> mentions ''**Soil Moisture'' L \<and> \<not> mentions ''**Temperature'' L
     \<and> mentions ''**Light'' L \<and> \<not> mentions ''**Humidity'' L
     \<and> \<not> mentions ''Fertilizer'' L \<and> \<not> mentions ''EC'' L \<and> \<not> mentions ''onductivity'' L"
  "L \<in> entries (checkHumidity d c ([], [])) \<Longrightarrow>
     \<not> mentions ''**Soil Moisture'' L \<and> \<not> mentions ''**Temperature'' L
     \<and> \<not> mentions ''**Light'' L \<and> mentions ''**Humidity'' L
     \<and> \<not> mentions ''Fertilizer'' L \<and> \<not> mentions ''EC'' L \<and> \<not> mentions ''onductivity'' L"
  unfolding entries_def
  by (rule moisture_lines_labels temperature_lines_labels light_lines_labels
      humidity_lines_labels; assumption)+

lemma compare_mentions:
  "mentions ''**Soil Moisture'' (compareConditions_pieces d c) =
     (checkMoisture d c ([], []) \<noteq> ([], []))"
  "mentions ''**Temperature'' (compareConditions_pieces d c) =
     (checkTemperature d c ([], []) \<noteq> ([], []))"
  "mentions ''**Light'' (compareConditions_pieces d c) = (checkLight d c ([], []) \<noteq> ([], []))"
  "mentions ''**Humidity'' (compareConditions_pieces d c) =
     (checkHumidity d c ([], []) \<noteq> ([], []))"
  "\<not> mentions ''Fertilizer'' (compareConditions_pieces d c)"
  "\<not> mentions ''EC'' (compareConditions_pieces d c)"
  "\<not> mentions ''onductivity'' (compareConditions_pieces d c)"
proof -
  note labels = entries_labels [of _ d c]
  have "mentions ''**Soil Moisture'' (compareConditions_pieces d c) =
      (entries (checkMoisture d c ([], [])) \<noteq> {})"
    unfolding mentions_compareConditions_pieces [OF labels_not_in_compareLiterals(1)]
    using labels by blast
  then show "mentions ''**Soil Moisture'' (compareConditions_pieces d c) =
     (checkMoisture d c ([], []) \<noteq> ([], []))"
    by (simp add: entries_empty)
  have "mentions ''**Temperature'' (compareConditions_pieces d c) =
      (entries (checkTemperature d c ([], [])) \<noteq> {})"
    unfolding mentions_compareConditions_pieces [OF labels_not_in_compareLiterals(2)]
    using labels by blast
  then show "mentions ''**Temperature'' (compareConditions_pieces d c) =
     (checkTemperature d c ([], []) \<noteq> ([], []))"
    by (simp add: entries_empty)
  have "mentions ''**Light'' (compareConditions_pieces d c) =
      (entries (checkLight d c ([], [])) \<noteq> {})"
    unfolding mentions_compareConditions_pieces [OF labels_not_in_compareLiterals(3)]
    using labels by blast
  then show "mentions ''**Light'' (compareConditions_pieces d c) =
     (checkLight d c ([], []) \<noteq> ([], []))"
    by (simp add: entries_empty)
  have "mentions ''**Humidity'' (compareConditions_pieces d c) =
      (entries (checkHumidity d c ([], [])) \<noteq> {})"
    unfolding mentions_compareConditions_pieces [OF labels_not_in_compareLiterals(4)]
    using labels by blast
  then show "mentions ''**Humidity'' (compareConditions_pieces d c) =
     (checkHumidity d c ([], []) \<noteq> ([], []))"
    by (simp add: entries_empty)
  show "\<not> mentions ''Fertilizer'' (compareConditions_pieces d c)"
    unfolding mentions_compareConditions_pieces [OF labels_not_in_compareLiterals(5)]
    using labels by blast
  show "\<not> mentions ''EC'' (compareConditions_pieces d c)"
    unfolding mentions_compareConditions_pieces [OF labels_not_in_compareLiterals(6)]
    using labels by blast
  show "\<not> mentions ''onductivity'' (compareConditions_pieces d c)"
    unfolding mentions_compareConditions_pieces [OF labels_not_in_compareLiterals(7)]
    using labels by blast
qed

lemma check_skipped:
  "\<not> 0 < MaxSoilMoist d \<Longrightarrow> checkMoisture d c st = st"
  "\<not> fgt (MaxTemp d) (Finite 0) \<Longrightarrow> checkTemperature d c st = st"
  "\<not> 0 < MaxLightLux d \<Longrightarrow> checkLight d c st = st"
  "\<not> 0 < MaxEnvHumid d \<Longrightarrow> checkHumidity d c st = st"
  by (simp_all add: checkMoisture_def checkTemperature_def checkLight_def checkHumidity_def
      split: option.split prod.split)

lemma check_no_reading:
  "asFloat64 (c ''moisture'') = None \<Longrightarrow> checkMoisture d c st = st"
  "asFloat64 (c ''temperature'') = None \<Longrightarrow> checkTemperature d c st = st"
  "asFloat64 (c ''light_lux'') = None \<Longrightarrow> checkLight d c st = st"
  "asFloat64 (c ''humidity'') = None \<Longrightarrow> checkHumidity d c st = st"
  by (simp_all add: checkMoisture_def checkTemperature_def checkLight_def checkHumidity_def
      split: prod.split)

lemma zero_not_positive: "isZero x \<Longrightarrow> \<not> fgt x (Finite 0)"
  by (auto simp: isZero_def fgt_def)



section \<open>The entries of one dimension\<close>

lemma filter_entries:
  "filter (mentions ''**Soil Moisture'') (fst (compareChecks d c)) = fst (checkMoisture d c ([], []))"
  "filter (mentions ''**Soil Moisture'') (snd (compareChecks d c)) = snd (checkMoisture d c ([], []))"
  "filter (mentions ''**Temperature'') (fst (compareChecks d c)) = fst (checkTemperature d c ([], []))"
  "filter (mentions ''**Temperature'') (snd (compareChecks d c)) = snd (checkTemperature d c ([], []))"
  "filter (mentions ''**Light'') (fst (compareChecks d c)) = fst (checkLight d c ([], []))"
  "filter (mentions ''**Light'') (snd (compareChecks d c)) = snd (checkLight d c ([], []))"
  "filter (mentions ''**Humidity'') (fst (compareChecks d c)) = fst (checkHumidity d c ([], []))"
  "filter (mentions ''**Humidity'') (snd (compareChecks d c)) = snd (checkHumidity d c ([], []))"
proof -
  have yes: "filter P xs = xs" if "\<And>L. L \<in> entries (xs, ys) \<Longrightarrow> P L"
    for P and xs ys :: "piece list list"
    using that by (simp add: entries_def)
  have yes': "filter P ys = ys" if "\<And>L. L \<in> entries (xs, ys) \<Longrightarrow> P L"
    for P and xs ys :: "piece list list"
    using that by (simp add: entries_def)
  have no: "filter P xs = []" if "\<And>L. L \<in> entries (xs, ys) \<Longrightarrow> \<not> P L"
    for P and xs ys :: "piece list list"
    using that by (simp add: entries_def)
  have no': "filter P ys = []" if "\<And>L. L \<in> entries (xs, ys) \<Longrightarrow> \<not> P L"
    for P and xs ys :: "piece list list"
    using that by (simp add: entries_def)
  note l = entries_labels [of _ d c]
  note y = yes [of "fst st" "snd st" for st, unfolded prod.collapse]
    yes' [of "fst st" "snd st" for st, unfolded prod.collapse]
  note n = no [of "fst st" "snd st" for st, unfolded prod.collapse]
    no' [of "fst st" "snd st" for st, unfolded prod.collapse]
  show "filter (mentions ''**Soil Moisture'') (fst (compareChecks d c)) = fst (checkMoisture d c ([], []))"
    "filter (mentions ''**Soil Moisture'') (snd (compareChecks d c)) = snd (checkMoisture d c ([], []))"
    "filter (mentions ''**Temperature'') (fst (compareChecks d c)) = fst (checkTemperature d c ([], []))"
    "filter (mentions ''**Temperature'') (snd (compareChecks d c)) = snd (checkTemperature d c ([], []))"
    "filter (mentions ''**Light'') (fst (compareChecks d c)) = fst (checkLight d c ([], []))"
    "filter (mentions ''**Light'') (snd (compareChecks d c)) = snd (checkLight d c ([], []))"
    "filter (mentions ''**Humidity'') (fst (compareChecks d c)) = fst (checkHumidity d c ([], []))"
    "filter (mentions ''**Humidity'') (snd (compareChecks d c)) = snd (checkHumidity d c ([], []))"
    unfolding compareChecks_entries fst_conv snd_conv filter_append
    by (simp_all add: y n l)
qed

section \<open>The example inputs evaluated\<close>

lemma float64_of_int_examples:
  "float64_of_int 25 = Finite 25" "float64_of_int 60 = Finite 60"
  "float64_of_int 80 = Finite 80" "float64_of_int 1500 = Finite 1500"
  "float64_of_int 3000 = Finite 3000"
  by code_simp+

lemma fsub_examples:
  "fsub (Finite 25) (Finite 15) = Finite 10"
  "fsub (Finite 1500) (Finite (4801 / 4)) = Finite (1199 / 4)"
  by code_simp+

lemma readings:
  "lowMoistureReading ''moisture'' = Some (VFloat64 (Finite 15))"
  "lowMoistureReading ''temperature'' = Some (VFloat64 (Finite 22))"
  "lowMoistureReading ''light_lux'' = Some (VFloat64 (Finite 2000))"
  "lowMoistureReading ''humidity'' = Some (VFloat64 (Finite 65))"
  "idealReading ''moisture'' = Some (VFloat64 (Finite 45))"
  "idealReading ''temperature'' = Some (VFloat64 (Finite 22))"
  "idealReading ''light_lux'' = Some (VFloat64 (Finite 2000))"
  "idealReading ''humidity'' = Some (VFloat64 (Finite 65))"
  "dimLightReading ''moisture'' = None"
  "dimLightReading ''temperature'' = None"
  "dimLightReading ''light_lux'' = Some (VFloat64 (Finite (4801 / 4)))"
  "dimLightReading ''humidity'' = None"
  by (simp_all add: lowMoistureReading_def idealReading_def dimLightReading_def)

lemma boundary_readings:
  "boundaryReading ''moisture'' = Some (VFloat64 (Finite 25))"
  "boundaryReading ''temperature'' = Some (VFloat64 (Finite 27))"
  "boundaryReading ''light_lux'' = Some (VFloat64 (Finite 1500))"
  "boundaryReading ''humidity'' = Some (VFloat64 (Finite 80))"
  by (simp_all add: boundaryReading_def)

lemmas check_defs = checkMoisture_def checkTemperature_def checkLight_def checkHumidity_def

lemma example_checks:
  "compareChecks exampleDetails idealReading =
     ([],
      [Sprintf (check @ '' **Soil Moisture**: %.1f%% (within %.0f-%.0f%% range)'')
         [AF (Finite 45), AF (Finite 25), AF (Finite 60)],
       Sprintf (check @ '' **Temperature**: %.1f'' @ degree @ ''C (within %.1f-%.1f'' @ degree
                @ ''C range)'')
         [AF (Finite 22), AF (Finite 18), AF (Finite 27)],
       Sprintf (check @ '' **Light**: %.0f lux (within %.0f-%.0f lux range)'')
         [AF (Finite 2000), AF (Finite 1500), AF (Finite 3000)],
       Sprintf (check @ '' **Humidity**: %.1f%% (within %.0f-%.0f%% range)'')
         [AF (Finite 65), AF (Finite 60), AF (Finite 80)]])"
  "compareChecks exampleDetails lowMoistureReading =
     ([Sprintf (cross @ '' **Soil Moisture Too Low**: Current %.1f%%, needs %.0f-%.0f%% (%.1f%% below minimum)'')
         [AF (Finite 15), AF (Finite 25), AF (Finite 60), AF (Finite 10)]],
      [Sprintf (check @ '' **Temperature**: %.1f'' @ degree @ ''C (within %.1f-%.1f'' @ degree
                @ ''C range)'')
         [AF (Finite 22), AF (Finite 18), AF (Finite 27)],
       Sprintf (check @ '' **Light**: %.0f lux (within %.0f-%.0f lux range)'')
         [AF (Finite 2000), AF (Finite 1500), AF (Finite 3000)],
       Sprintf (check @ '' **Humidity**: %.1f%% (within %.0f-%.0f%% range)'')
         [AF (Finite 65), AF (Finite 60), AF (Finite 80)]])"
  "compareChecks exampleDetails dimLightReading =
     ([Sprintf (cross @ '' **Light Too Low**: Current %.0f lux, needs %.0f-%.0f lux (%.0f lux below minimum)'')
         [AF (Finite (4801 / 4)), AF (Finite 1500), AF (Finite 3000), AF (Finite (1199 / 4))]],
      [])"
  "compareChecks bareDetails idealReading = ([], [])"
  "compareChecks exampleDetails boundaryReading =
     ([],
      [Sprintf (check @ '' **Soil Moisture**: %.1f%% (within %.0f-%.0f%% range)'')
         [AF (Finite 25), AF (Finite 25), AF (Finite 60)],
       Sprintf (check @ '' **Temperature**: %.1f'' @ degree @ ''C (within %.1f-%.1f'' @ degree
                @ ''C range)'')
         [AF (Finite 27), AF (Finite 18), AF (Finite 27)],
       Sprintf (check @ '' **Light**: %.0f lux (within %.0f-%.0f lux range)'')
         [AF (Finite 1500), AF (Finite 1500), AF (Finite 3000)],
       Sprintf (check @ '' **Humidity**: %.1f%% (within %.0f-%.0f%% range)'')
         [AF (Finite 80), AF (Finite 60), AF (Finite 80)]])"
  by (simp_all add: compareChecks_def check_defs readings boundary_readings asFloat64_def
      exampleDetails_def bareDetails_def fgt_def float64_of_int_examples fsub_examples Let_def)

lemma fmt_reading_examples:
  "fmtFloat 1 (Finite 15) = ''15.0''" "fmtFloat 0 (Finite 25) = ''25''"
  "fmtFloat 0 (Finite 60) = ''60''" "fmtFloat 1 (Finite 10) = ''10.0''"
  "fmtFloat 0 (Finite (4801 / 4)) = ''1200''" "fmtFloat 0 (Finite 1500) = ''1500''"
  "fmtFloat 0 (Finite 3000) = ''3000''" "fmtFloat 0 (Finite (1199 / 4)) = ''300''"
  by code_simp+



section \<open>Dimensions that are not specified\<close>

text \<open>
  C1. A dimension whose upper bound is 0 is rendered neither by the care summary nor by
  the comparison: the text of its line (its label) occurs in no literal piece of either
  output, whatever the other inputs are. The labels are those of the source:
  \<open>**Light\<close>, \<open>**Temperature\<close>, \<open>**Humidity\<close>, \<open>**Soil Moisture\<close> and, for the soil
  conductivity, \<open>**Fertilizer (EC)\<close>; the comparison has no line for the conductivity
  at all.
\<close>

theorem unspecified_dimension_not_rendered:
  "(MaxLightLux d = 0 \<longrightarrow>
      \<not> mentions ''**Light'' (formatCareSummary_pieces d metric)
      \<and> \<not> mentions ''**Light'' (compareConditions_pieces d c))
   \<and> (isZero (MaxTemp d) \<longrightarrow>
      \<not> mentions ''**Temperature'' (formatCareSummary_pieces d metric)
      \<and> \<not> mentions ''**Temperature'' (compareConditions_pieces d c))
   \<and> (MaxEnvHumid d = 0 \<longrightarrow>
      \<not> mentions ''**Humidity'' (formatCareSummary_pieces d metric)
      \<and> \<not> mentions ''**Humidity'' (compareConditions_pieces d c))
   \<and> (MaxSoilMoist d = 0 \<longrightarrow>
      \<not> mentions ''**Soil Moisture'' (formatCareSummary_pieces d metric)
      \<and> \<not> mentions ''**Soil Moisture'' (compareConditions_pieces d c))
   \<and> (MaxSoilEC d = 0 \<longrightarrow>
      \<not> mentions ''**Fertilizer'' (formatCareSummary_pieces d metric)
      \<and> \<not> mentions ''Fertilizer'' (compareConditions_pieces d c)
      \<and> \<not> mentions ''EC'' (compareConditions_pieces d c)
      \<and> \<not> mentions ''onductivity'' (compareConditions_pieces d c))"
  by (simp add: summary_mentions compare_mentions check_skipped zero_not_positive)

lemma bare_outputs:
  "formatCareSummary bareDetails True =
     ''# Fern (Fern)\<newline>\<newline>Category: Ferns\<newline>\<newline>## Care Requirements\<newline>\<newline>''"
  "compareConditions bareDetails idealReading =
     ''# Condition Analysis for Fern\<newline>\<newline>No conditions were provided for comparison.\<newline>''"
proof -
  show "formatCareSummary bareDetails True =
     ''# Fern (Fern)\<newline>\<newline>Category: Ferns\<newline>\<newline>## Care Requirements\<newline>\<newline>''"
    by (simp add: formatCareSummary_def formatCareSummary_pieces_sections section_defs
        bareDetails_def render_def fgt_def)
  have "compareChecks bareDetails idealReading = ([], [])"
    by (simp add: compareChecks_def check_skipped bareDetails_def fgt_def)
  then show "compareConditions bareDetails idealReading =
     ''# Condition Analysis for Fern\<newline>\<newline>No conditions were provided for comparison.\<newline>''"
    by (simp add: compareConditions_def compareConditions_pieces_def compareOutput_shape
        render_def bareDetails_def)
qed

theorem unspecified_dimension_not_rendered_witness:
  "MaxLightLux bareDetails = 0 \<and> isZero (MaxTemp bareDetails) \<and> MaxEnvHumid bareDetails = 0
   \<and> MaxSoilMoist bareDetails = 0 \<and> MaxSoilEC bareDetails = 0
   \<and> \<not> mentions ''**Light'' (formatCareSummary_pieces bareDetails True)
   \<and> \<not> mentions ''**Light'' (compareConditions_pieces bareDetails idealReading)
   \<and> \<not> mentions ''**Temperature'' (formatCareSummary_pieces bareDetails True)
   \<and> \<not> mentions ''**Temperature'' (compareConditions_pieces bareDetails idealReading)
   \<and> \<not> mentions ''**Humidity'' (formatCareSummary_pieces bareDetails True)
   \<and> \<not> mentions ''**Humidity'' (compareConditions_pieces bareDetails idealReading)
   \<and> \<not> mentions ''**Soil Moisture'' (formatCareSummary_pieces bareDetails True)
   \<and> \<not> mentions ''**Soil Moisture'' (compareConditions_pieces bareDetails idealReading)
   \<and> \<not> mentions ''**Fertilizer'' (formatCareSummary_pieces bareDetails True)
   \<and> \<not> mentions ''Fertilizer'' (compareConditions_pieces bareDetails idealReading)
   \<and> formatCareSummary bareDetails True =
       ''# Fern (Fern)\<newline>\<newline>Category: Ferns\<newline>\<newline>## Care Requirements\<newline>\<newline>''
   \<and> compareConditions bareDetails idealReading =
       ''# Condition Analysis for Fern\<newline>\<newline>No conditions were provided for comparison.\<newline>''"
proof -
  have zero: "MaxLightLux bareDetails = 0" "isZero (MaxTemp bareDetails)"
    "MaxEnvHumid bareDetails = 0" "MaxSoilMoist bareDetails = 0" "MaxSoilEC bareDetails = 0"
    by (simp_all add: bareDetails_def isZero_def)
  from zero unspecified_dimension_not_rendered [of bareDetails True idealReading] bare_outputs
  show ?thesis by blast
qed



section \<open>The verdict for a dimension\<close>

text \<open>
  C2. For each of the four dimensions that is evaluated (the reading has a \<open>float64\<close>
  under the key and the upper bound is positive), with \<open>x\<close> the current value and \<open>mn\<close>,
  \<open>mx\<close> the bounds: when \<open>x < mn\<close> the one entry of the dimension is the ``Too Low''
  line among the issues, with the deviation \<open>mn - x\<close>; otherwise when \<open>x > mx\<close> it is the
  ``Too High'' line among the issues, with the deviation \<open>x - mx\<close>; otherwise, so also
  when \<open>x\<close> equals a bound, it is the within-range line among the OK entries. The
  comparisons and the subtraction are those of \<open>float64\<close>.
\<close>

theorem comparison_verdicts:
  "compareChecks d c = (issues, ok) \<Longrightarrow>
   (\<forall>x. c ''moisture'' = Some (VFloat64 x) \<and> 0 < MaxSoilMoist d \<longrightarrow>
      (let mn = float64_of_int (MinSoilMoist d); mx = float64_of_int (MaxSoilMoist d)
       in (filter (mentions ''**Soil Moisture'') issues, filter (mentions ''**Soil Moisture'') ok) =
          (if flt x mn then
             ([Sprintf
                 (cross @ '' **Soil Moisture Too Low**: Current %.1f%%, needs %.0f-%.0f%% (%.1f%% below minimum)'')
                 [AF x, AF mn, AF mx, AF (fsub mn x)]], [])
           else if fgt x mx then
             ([Sprintf
                 (cross @ '' **Soil Moisture Too High**: Current %.1f%%, needs %.0f-%.0f%% (%.1f%% above maximum)'')
                 [AF x, AF mn, AF mx, AF (fsub x mx)]], [])
           else
             ([], [Sprintf
                 (check @ '' **Soil Moisture**: %.1f%% (within %.0f-%.0f%% range)'')
                 [AF x, AF mn, AF mx]]))))
   \<and> (\<forall>x. c ''temperature'' = Some (VFloat64 x) \<and> fgt (MaxTemp d) (Finite 0) \<longrightarrow>
      (let mn = MinTemp d; mx = MaxTemp d
       in (filter (mentions ''**Temperature'') issues, filter (mentions ''**Temperature'') ok) =
          (if flt x mn then
             ([Sprintf
                 (cross @ '' **Temperature Too Low**: Current %.1f'' @ degree
                  @ ''C, needs %.1f-%.1f'' @ degree @ ''C (%.1f'' @ degree @ ''C below minimum)'')
                 [AF x, AF mn, AF mx, AF (fsub mn x)]], [])
           else if fgt x mx then
             ([Sprintf
                 (cross @ '' **Temperature Too High**: Current %.1f'' @ degree
                  @ ''C, needs %.1f-%.1f'' @ degree @ ''C (%.1f'' @ degree @ ''C above maximum)'')
                 [AF x, AF mn, AF mx, AF (fsub x mx)]], [])
           else
             ([], [Sprintf
                 (check @ '' **Temperature**: %.1f'' @ degree @ ''C (within %.1f-%.1f'' @ degree @ ''C range)'')
                 [AF x, AF mn, AF mx]]))))
   \<and> (\<forall>x. c ''light_lux'' = Some (VFloat64 x) \<and> 0 < MaxLightLux d \<longrightarrow>
      (let mn = float64_of_int (MinLightLux d); mx = float64_of_int (MaxLightLux d)
       in (filter (mentions ''**Light'') issues, filter (mentions ''**Light'') ok) =
          (if flt x mn then
             ([Sprintf
                 (cross @ '' **Light Too Low**: Current %.0f lux, needs %.0f-%.0f lux (%.0f lux below minimum)'')
                 [AF x, AF mn, AF mx, AF (fsub mn x)]], [])
           else if fgt x mx then
             ([Sprintf
                 (cross @ '' **Light Too High**: Current %.0f lux, needs %.0f-%.0f lux (%.0f lux above maximum)'')
                 [AF x, AF mn, AF mx, AF (fsub x mx)]], [])
           else
             ([], [Sprintf
                 (check @ '' **Light**: %.0f lux (within %.0f-%.0f lux range)'')
                 [AF x, AF mn, AF mx]]))))
   \<and> (\<forall>x. c ''humidity'' = Some (VFloat64 x) \<and> 0 < MaxEnvHumid d \<longrightarrow>
      (let mn = float64_of_int (MinEnvHumid d); mx = float64_of_int (MaxEnvHumid d)
       in (filter (mentions ''**Humidity'') issues, filter (mentions ''**Humidity'') ok) =
          (if flt x mn then
             ([Sprintf
                 (cross @ '' **Humidity Too Low**: Current %.1f%%, needs %.0f-%.0f%% (%.1f%% below minimum)'')
                 [AF x, AF mn, AF mx, AF (fsub mn x)]], [])
           else if fgt x mx then
             ([Sprintf
                 (cross @ '' **Humidity Too High**: Current %.1f%%, needs %.0f-%.0f%% (%.1f%% above maximum)'')
                 [AF x, AF mn, AF mx, AF (fsub x mx)]], [])
           else
             ([], [Sprintf
                 (check @ '' **Humidity**: %.1f%% (within %.0f-%.0f%% range)'')
                 [AF x, AF mn, AF mx]]))))"
proof -
  assume "compareChecks d c = (issues, ok)"
  then have issues: "issues = fst (compareChecks d c)" and ok: "ok = snd (compareChecks d c)"
    by simp_all
  show ?thesis
    unfolding issues ok filter_entries
    by (simp add: check_defs asFloat64_def Let_def)
qed

theorem comparison_verdicts_witness:
  "compareChecks exampleDetails lowMoistureReading =
     ([Sprintf (cross @ '' **Soil Moisture Too Low**: Current %.1f%%, needs %.0f-%.0f%% (%.1f%% below minimum)'')
         [AF (Finite 15), AF (Finite 25), AF (Finite 60), AF (Finite 10)]],
      [Sprintf (check @ '' **Temperature**: %.1f'' @ degree @ ''C (within %.1f-%.1f'' @ degree
                @ ''C range)'')
         [AF (Finite 22), AF (Finite 18), AF (Finite 27)],
       Sprintf (check @ '' **Light**: %.0f lux (within %.0f-%.0f lux range)'')
         [AF (Finite 2000), AF (Finite 1500), AF (Finite 3000)],
       Sprintf (check @ '' **Humidity**: %.1f%% (within %.0f-%.0f%% range)'')
         [AF (Finite 65), AF (Finite 60), AF (Finite 80)]])
   \<and> lowMoistureReading ''moisture'' = Some (VFloat64 (Finite 15))
   \<and> 0 < MaxSoilMoist exampleDetails
   \<and> flt (Finite 15) (float64_of_int (MinSoilMoist exampleDetails))
   \<and> fsub (float64_of_int (MinSoilMoist exampleDetails)) (Finite 15) = Finite 10
   \<and> filter (mentions ''**Soil Moisture'') (fst (compareChecks exampleDetails lowMoistureReading)) =
       [Sprintf (cross @ '' **Soil Moisture Too Low**: Current %.1f%%, needs %.0f-%.0f%% (%.1f%% below minimum)'')
         [AF (Finite 15), AF (Finite 25), AF (Finite 60), AF (Finite 10)]]
   \<and> filter (mentions ''**Soil Moisture'') (snd (compareChecks exampleDetails lowMoistureReading)) = []
   \<and> render (Sprintf (cross @ '' **Soil Moisture Too Low**: Current %.1f%%, needs %.0f-%.0f%% (%.1f%% below minimum)'')
         [AF (Finite 15), AF (Finite 25), AF (Finite 60), AF (Finite 10)]) =
       cross @ '' **Soil Moisture Too Low**: Current 15.0%, needs 25-60% (10.0% below minimum)''
   \<and> boundaryReading ''moisture'' = Some (VFloat64 (Finite 25))
   \<and> \<not> flt (Finite 25) (float64_of_int (MinSoilMoist exampleDetails))
   \<and> filter (mentions ''**Soil Moisture'') (fst (compareChecks exampleDetails boundaryReading)) = []
   \<and> filter (mentions ''**Soil Moisture'') (snd (compareChecks exampleDetails boundaryReading)) =
       [Sprintf (check @ '' **Soil Moisture**: %.1f%% (within %.0f-%.0f%% range)'')
         [AF (Finite 25), AF (Finite 25), AF (Finite 60)]]"
proof -
  have vals: "MaxSoilMoist exampleDetails = 60" "MinSoilMoist exampleDetails = 25"
    by (simp_all add: exampleDetails_def)
  have r: "render (Sprintf (cross @ '' **Soil Moisture Too Low**: Current %.1f%%, needs %.0f-%.0f%% (%.1f%% below minimum)'')
         [AF (Finite 15), AF (Finite 25), AF (Finite 60), AF (Finite 10)]) =
       cross @ '' **Soil Moisture Too Low**: Current 15.0%, needs 25-60% (10.0% below minimum)''"
    by (simp add: Sprintf_eval render_def fmt_reading_examples fmt_reading_examples [unfolded One_nat_def])
  from comparison_verdicts [OF example_checks(2)] comparison_verdicts [OF example_checks(5)]
  show ?thesis
    by (simp add: example_checks readings boundary_readings vals float64_of_int_examples
        fsub_examples fgt_def Let_def r)
qed

section \<open>The tail of the comparison report\<close>

lemma suffix_same_length: "suffix xs (ys @ zs) \<Longrightarrow> length xs = length zs \<Longrightarrow> xs = zs"
  by (auto simp: suffix_def append_eq_append_conv)

lemma suffix_last: "suffix xs ys \<Longrightarrow> xs \<noteq> [] \<Longrightarrow> last xs = last ys"
  by (auto simp: suffix_def)


text \<open>
  C3. With \<open>issues\<close> and \<open>ok\<close> the two slices the checks produce, the report ends with
  exactly one of three tails: the note that no conditions were provided when both are
  empty; the positive summary line when there is no issue and at least one OK entry; the
  summary line with the number of issues when there is an issue. That number is the
  length of \<open>issues\<close>, whatever \<open>ok\<close> holds. The last conjunct states the tail of the
  rendered string.
\<close>

theorem report_tail:
  "compareChecks d c = (issues, ok) \<Longrightarrow>
   (let out = compareConditions_pieces d c;
        none = [Lit ''No conditions were provided for comparison.\<newline>''];
        good = [Lit (''\<newline>**Summary**: All monitored conditions are within ideal ranges! ''
                     @ seedling @ ''\<newline>'')];
        bad = (\<lambda>n. [Lit ''\<newline>**Summary**: '', ArgD n, Lit '' condition(s) need attention.\<newline>''])
    in (issues = [] \<and> ok = [] \<longrightarrow>
          suffix none out \<and> \<not> suffix good out \<and> (\<forall>n. \<not> suffix (bad n) out))
     \<and> (issues = [] \<and> ok \<noteq> [] \<longrightarrow>
          suffix good out \<and> \<not> suffix none out \<and> (\<forall>n. \<not> suffix (bad n) out))
     \<and> (issues \<noteq> [] \<longrightarrow>
          suffix (bad (int (length issues))) out \<and> \<not> suffix none out \<and> \<not> suffix good out
          \<and> (\<forall>n. suffix (bad n) out \<longrightarrow> n = int (length issues))))
   \<and> suffix
        (if issues = [] \<and> ok = [] then ''No conditions were provided for comparison.\<newline>''
         else if issues = [] then
           ''\<newline>**Summary**: All monitored conditions are within ideal ranges! '' @ seedling
           @ ''\<newline>''
         else ''\<newline>**Summary**: '' @ fmtInt (int (length issues))
              @ '' condition(s) need attention.\<newline>'')
        (compareConditions d c)"
proof -
  assume checks: "compareChecks d c = (issues, ok)"
  define none where "none = [Lit ''No conditions were provided for comparison.\<newline>'']"
  define good where "good = [Lit (''\<newline>**Summary**: All monitored conditions are within ideal ranges! ''
                     @ seedling @ ''\<newline>'')]"
  define bad where "bad = (\<lambda>n. [Lit ''\<newline>**Summary**: '', ArgD n, Lit '' condition(s) need attention.\<newline>''])"
  define tail where "tail = (if issues = [] \<and> ok = [] then none else if issues = [] then good
     else bad (int (length issues)))"
  obtain body where out: "compareConditions_pieces d c = body @ tail"
    unfolding compareConditions_pieces_def checks prod.case compareOutput_shape tail_def
      none_def good_def bad_def
    by (metis append.assoc)
  have last_out: "last (compareConditions_pieces d c) = last tail"
    unfolding out by (simp add: tail_def none_def good_def bad_def)
  have lasts: "last none \<noteq> last good" "last none \<noteq> last (bad n)" "last good \<noteq> last (bad n)" for n
    by (simp_all add: none_def good_def bad_def seedling_def)
  have ne: "none \<noteq> []" "good \<noteq> []" "bad n \<noteq> []" for n
    by (simp_all add: none_def good_def bad_def)
  have here: "suffix tail (compareConditions_pieces d c)"
    unfolding out by (rule suffix_appendI) simp
  have only_n: "n = int (length issues)" if "suffix (bad n) (compareConditions_pieces d c)"
    "issues \<noteq> []" for n
  proof -
    from that have "suffix (bad n) (body @ bad (int (length issues)))"
      by (simp add: out tail_def)
    then have "bad n = bad (int (length issues))"
      by (rule suffix_same_length) (simp add: bad_def)
    then show ?thesis by (simp add: bad_def)
  qed
  have "(issues = [] \<and> ok = [] \<longrightarrow>
          suffix none (compareConditions_pieces d c) \<and> \<not> suffix good (compareConditions_pieces d c)
          \<and> (\<forall>n. \<not> suffix (bad n) (compareConditions_pieces d c)))"
    using here last_out lasts ne suffix_last by (metis tail_def)
  moreover have "(issues = [] \<and> ok \<noteq> [] \<longrightarrow>
          suffix good (compareConditions_pieces d c) \<and> \<not> suffix none (compareConditions_pieces d c)
          \<and> (\<forall>n. \<not> suffix (bad n) (compareConditions_pieces d c)))"
    using here last_out lasts ne suffix_last by (metis tail_def)
  moreover have "(issues \<noteq> [] \<longrightarrow>
          suffix (bad (int (length issues))) (compareConditions_pieces d c)
          \<and> \<not> suffix none (compareConditions_pieces d c)
          \<and> \<not> suffix good (compareConditions_pieces d c)
          \<and> (\<forall>n. suffix (bad n) (compareConditions_pieces d c) \<longrightarrow> n = int (length issues)))"
    using here last_out lasts ne suffix_last only_n by (metis tail_def)
  moreover have "suffix
        (if issues = [] \<and> ok = [] then ''No conditions were provided for comparison.\<newline>''
         else if issues = [] then
           ''\<newline>**Summary**: All monitored conditions are within ideal ranges! '' @ seedling
           @ ''\<newline>''
         else ''\<newline>**Summary**: '' @ fmtInt (int (length issues))
              @ '' condition(s) need attention.\<newline>'')
        (compareConditions d c)"
  proof -
    have "suffix (render tail) (compareConditions d c)"
      unfolding compareConditions_def out render_append by (rule suffix_appendI) simp
    then show ?thesis
      by (cases "issues = []"; cases "ok = []")
        (simp_all add: tail_def none_def good_def bad_def render_def)
  qed
  ultimately show ?thesis
    unfolding Let_def none_def good_def bad_def by blast
qed

lemma fmtInt_1: "fmtInt 1 = ''1''"
  by code_simp

theorem report_tail_witness:
  "compareChecks bareDetails idealReading = ([], [])
   \<and> suffix [Lit ''No conditions were provided for comparison.\<newline>'']
       (compareConditions_pieces bareDetails idealReading)
   \<and> fst (compareChecks exampleDetails idealReading) = []
   \<and> length (snd (compareChecks exampleDetails idealReading)) = 4
   \<and> suffix [Lit (''\<newline>**Summary**: All monitored conditions are within ideal ranges! ''
                   @ seedling @ ''\<newline>'')]
       (compareConditions_pieces exampleDetails idealReading)
   \<and> length (fst (compareChecks exampleDetails lowMoistureReading)) = 1
   \<and> length (snd (compareChecks exampleDetails lowMoistureReading)) = 3
   \<and> suffix [Lit ''\<newline>**Summary**: '', ArgD 1, Lit '' condition(s) need attention.\<newline>'']
       (compareConditions_pieces exampleDetails lowMoistureReading)
   \<and> suffix ''\<newline>**Summary**: 1 condition(s) need attention.\<newline>''
       (compareConditions exampleDetails lowMoistureReading)"
  using report_tail [OF example_checks(4)] report_tail [OF example_checks(1)]
    report_tail [OF example_checks(2)]
  by (simp add: example_checks Let_def fmtInt_1)



section \<open>The precision of an issue line\<close>

text \<open>
  C6, as amended. Every entry of \<open>issues\<close> is the line of one of the four dimensions, and
  its numbers (the current value, the lower bound, the upper bound, the deviation, in
  this order) are formatted as follows: for soil moisture and humidity the current value
  and the deviation with \<open>%.1f\<close>, the bounds with \<open>%.0f\<close>; for light all four with
  \<open>%.0f\<close>; for temperature all four with \<open>%.1f\<close>. For a finite value \<open>%.1f\<close> prints
  exactly one decimal and \<open>%.0f\<close> prints no decimal point.
\<close>

theorem issue_line_precision:
  "compareChecks d c = (issues, ok) \<Longrightarrow> L \<in> set issues \<Longrightarrow>
   (mentions ''**Soil Moisture'' L \<or> mentions ''**Temperature'' L \<or> mentions ''**Light'' L
      \<or> mentions ''**Humidity'' L)
   \<and> (mentions ''**Soil Moisture'' L \<longrightarrow>
        (\<exists>x. c ''moisture'' = Some (VFloat64 x) \<and>
           (let mn = float64_of_int (MinSoilMoist d); mx = float64_of_int (MaxSoilMoist d)
            in floatArgs L = [(1, x), (0, mn), (0, mx), (1, fsub mn x)]
               \<or> floatArgs L = [(1, x), (0, mn), (0, mx), (1, fsub x mx)])))
   \<and> (mentions ''**Humidity'' L \<longrightarrow>
        (\<exists>x. c ''humidity'' = Some (VFloat64 x) \<and>
           (let mn = float64_of_int (MinEnvHumid d); mx = float64_of_int (MaxEnvHumid d)
            in floatArgs L = [(1, x), (0, mn), (0, mx), (1, fsub mn x)]
               \<or> floatArgs L = [(1, x), (0, mn), (0, mx), (1, fsub x mx)])))
   \<and> (mentions ''**Light'' L \<longrightarrow>
        (\<exists>x. c ''light_lux'' = Some (VFloat64 x) \<and>
           (let mn = float64_of_int (MinLightLux d); mx = float64_of_int (MaxLightLux d)
            in floatArgs L = [(0, x), (0, mn), (0, mx), (0, fsub mn x)]
               \<or> floatArgs L = [(0, x), (0, mn), (0, mx), (0, fsub x mx)])))
   \<and> (mentions ''**Temperature'' L \<longrightarrow>
        (\<exists>x. c ''temperature'' = Some (VFloat64 x) \<and>
           (let mn = MinTemp d; mx = MaxTemp d
            in floatArgs L = [(1, x), (1, mn), (1, mx), (1, fsub mn x)]
               \<or> floatArgs L = [(1, x), (1, mn), (1, mx), (1, fsub x mx)])))
   \<and> (\<forall>r. decimals (fmtFloat 1 (Finite r)) = Some 1 \<and> decimals (fmtFloat 0 (Finite r)) = None)"
proof -
  assume checks: "compareChecks d c = (issues, ok)" and L: "L \<in> set issues"
  from checks have "issues = fst (checkMoisture d c ([], [])) @ fst (checkTemperature d c ([], []))
        @ fst (checkLight d c ([], [])) @ fst (checkHumidity d c ([], []))"
    by (simp add: compareChecks_entries)
  with L consider
      (m) "L \<in> set (fst (checkMoisture d c ([], [])))"
    | (t) "L \<in> set (fst (checkTemperature d c ([], [])))"
    | (l) "L \<in> set (fst (checkLight d c ([], [])))"
    | (h) "L \<in> set (fst (checkHumidity d c ([], [])))"
    by auto
  then have "(mentions ''**Soil Moisture'' L \<or> mentions ''**Temperature'' L \<or> mentions ''**Light'' L
      \<or> mentions ''**Humidity'' L)
   \<and> (mentions ''**Soil Moisture'' L \<longrightarrow>
        (\<exists>x. c ''moisture'' = Some (VFloat64 x) \<and>
           (let mn = float64_of_int (MinSoilMoist d); mx = float64_of_int (MaxSoilMoist d)
            in floatArgs L = [(1, x), (0, mn), (0, mx), (1, fsub mn x)]
               \<or> floatArgs L = [(1, x), (0, mn), (0, mx), (1, fsub x mx)])))
   \<and> (mentions ''**Humidity'' L \<longrightarrow>
        (\<exists>x. c ''humidity'' = Some (VFloat64 x) \<and>
           (let mn = float64_of_int (MinEnvHumid d); mx = float64_of_int (MaxEnvHumid d)
            in floatArgs L = [(1, x), (0, mn), (0, mx), (1, fsub mn x)]
               \<or> floatArgs L = [(1, x), (0, mn), (0, mx), (1, fsub x mx)])))
   \<and> (mentions ''**Light'' L \<longrightarrow>
        (\<exists>x. c ''light_lux'' = Some (VFloat64 x) \<and>
           (let mn = float64_of_int (MinLightLux d); mx = float64_of_int (MaxLightLux d)
            in floatArgs L = [(0, x), (0, mn), (0, mx), (0, fsub mn x)]
               \<or> floatArgs L = [(0, x), (0, mn), (0, mx), (0, fsub x mx)])))
   \<and> (mentions ''**Temperature'' L \<longrightarrow>
        (\<exists>x. c ''temperature'' = Some (VFloat64 x) \<and>
           (let mn = MinTemp d; mx = MaxTemp d
            in floatArgs L = [(1, x), (1, mn), (1, mx), (1, fsub mn x)]
               \<or> floatArgs L = [(1, x), (1, mn), (1, mx), (1, fsub x mx)])))"
  proof cases
    case m
    with moisture_lines_labels [of L d c] moisture_issue_floatArgs [of L d c]
    show ?thesis by simp
  next
    case t
    with temperature_lines_labels [of L d c] temperature_issue_floatArgs [of L d c]
    show ?thesis by simp
  next
    case l
    with light_lines_labels [of L d c] light_issue_floatArgs [of L d c]
    show ?thesis by simp
  next
    case h
    with humidity_lines_labels [of L d c] humidity_issue_floatArgs [of L d c]
    show ?thesis by simp
  qed
  then show ?thesis
    by (simp add: decimals_fmtFloat_Finite)
qed

text \<open>
  The claim as stated has the current light value rendered with one decimal. A reading of
  1200.25 lux against the range 1500 to 3000 is reported with \<open>%.0f\<close>, as ``Current 1200
  lux'', and the deviation 299.75 as ``300 lux''.
\<close>

theorem issue_line_precision_counterexample:
  "fst (compareChecks exampleDetails dimLightReading) =
     [Sprintf (cross @ '' **Light Too Low**: Current %.0f lux, needs %.0f-%.0f lux (%.0f lux below minimum)'')
         [AF (Finite (4801 / 4)), AF (Finite 1500), AF (Finite 3000), AF (Finite (1199 / 4))]]
   \<and> floatArgs
        (Sprintf (cross @ '' **Light Too Low**: Current %.0f lux, needs %.0f-%.0f lux (%.0f lux below minimum)'')
           [AF (Finite (4801 / 4)), AF (Finite 1500), AF (Finite 3000), AF (Finite (1199 / 4))])
       = [(0, Finite (4801 / 4)), (0, Finite 1500), (0, Finite 3000), (0, Finite (1199 / 4))]
   \<and> render
        (Sprintf (cross @ '' **Light Too Low**: Current %.0f lux, needs %.0f-%.0f lux (%.0f lux below minimum)'')
           [AF (Finite (4801 / 4)), AF (Finite 1500), AF (Finite 3000), AF (Finite (1199 / 4))])
       = cross @ '' **Light Too Low**: Current 1200 lux, needs 1500-3000 lux (300 lux below minimum)''
   \<and> decimals (fmtFloat 0 (Finite (4801 / 4))) \<noteq> Some 1"
  by (simp add: example_checks decimals_fmtFloat_Finite)
    (simp add: Sprintf_eval render_def fmt_reading_examples)

theorem issue_line_precision_witness:
  "compareChecks exampleDetails lowMoistureReading =
     ([Sprintf (cross @ '' **Soil Moisture Too Low**: Current %.1f%%, needs %.0f-%.0f%% (%.1f%% below minimum)'')
         [AF (Finite 15), AF (Finite 25), AF (Finite 60), AF (Finite 10)]],
      [Sprintf (check @ '' **Temperature**: %.1f'' @ degree @ ''C (within %.1f-%.1f'' @ degree
                @ ''C range)'')
         [AF (Finite 22), AF (Finite 18), AF (Finite 27)],
       Sprintf (check @ '' **Light**: %.0f lux (within %.0f-%.0f lux range)'')
         [AF (Finite 2000), AF (Finite 1500), AF (Finite 3000)],
       Sprintf (check @ '' **Humidity**: %.1f%% (within %.0f-%.0f%% range)'')
         [AF (Finite 65), AF (Finite 60), AF (Finite 80)]])
   \<and> mentions ''**Soil Moisture''
        (Sprintf (cross @ '' **Soil Moisture Too Low**: Current %.1f%%, needs %.0f-%.0f%% (%.1f%% below minimum)'')
           [AF (Finite 15), AF (Finite 25), AF (Finite 60), AF (Finite 10)])
   \<and> map fst (floatArgs
        (Sprintf (cross @ '' **Soil Moisture Too Low**: Current %.1f%%, needs %.0f-%.0f%% (%.1f%% below minimum)'')
           [AF (Finite 15), AF (Finite 25), AF (Finite 60), AF (Finite 10)]))
       = [1, 0, 0, 1]"
proof -
  let ?L = "Sprintf (cross @ '' **Soil Moisture Too Low**: Current %.1f%%, needs %.0f-%.0f%% (%.1f%% below minimum)'')
           [AF (Finite 15), AF (Finite 25), AF (Finite 60), AF (Finite 10)]"
  have "?L \<in> set [?L]"
    by simp
  note p = issue_line_precision [OF example_checks(2) this]
  have m: "mentions ''**Soil Moisture'' ?L"
    by (simp add: Sprintf_eval contains_def)
  with p have "\<exists>x. lowMoistureReading ''moisture'' = Some (VFloat64 x) \<and>
       (let mn = float64_of_int (MinSoilMoist exampleDetails);
            mx = float64_of_int (MaxSoilMoist exampleDetails)
        in floatArgs ?L = [(1, x), (0, mn), (0, mx), (1, fsub mn x)]
           \<or> floatArgs ?L = [(1, x), (0, mn), (0, mx), (1, fsub x mx)])"
    by blast
  then have "map fst (floatArgs ?L) = [1, 0, 0, 1]"
    by (auto simp: Let_def)
  with m show ?thesis
    by (simp add: example_checks)
qed

section \<open>Readings that are not numbers\<close>

lemma check_cong:
  "asFloat64 (c1 ''moisture'') = asFloat64 (c2 ''moisture'') \<Longrightarrow>
     checkMoisture d c1 st = checkMoisture d c2 st"
  "asFloat64 (c1 ''temperature'') = asFloat64 (c2 ''temperature'') \<Longrightarrow>
     checkTemperature d c1 st = checkTemperature d c2 st"
  "asFloat64 (c1 ''light_lux'') = asFloat64 (c2 ''light_lux'') \<Longrightarrow>
     checkLight d c1 st = checkLight d c2 st"
  "asFloat64 (c1 ''humidity'') = asFloat64 (c2 ''humidity'') \<Longrightarrow>
     checkHumidity d c1 st = checkHumidity d c2 st"
  by (simp_all add: check_defs)

lemma compareChecks_cong:
  "(\<And>key. asFloat64 (c1 key) = asFloat64 (c2 key)) \<Longrightarrow> compareChecks d c1 = compareChecks d c2"
  unfolding compareChecks_def
  by (simp add: check_cong(1) [of c1 c2] check_cong(2) [of c1 c2] check_cong(3) [of c1 c2]
      check_cong(4) [of c1 c2])

lemma compareOutput_prefix:
  "prefix [Lit ''# Condition Analysis for '', ArgS (Alias d), Lit ''\<newline>\<newline>'']
     (compareOutput d issues ok)"
  unfolding compareOutput_shape by (rule prefixI) simp


text \<open>
  C8. A value under a key of the reading that is not a \<open>float64\<close> (the type every JSON
  number decodes to) is handled as if the key were absent: the two slices, and so the
  report, are those of the reading without the key; for each of the four keys the
  dimension has no line in the report. \<open>compareConditions\<close> has no failing branch (the
  type assertions are of the two-result form), so it is a total function here, and its
  report always starts with the title line.
\<close>

theorem non_numeric_reading_skipped:
  "(\<forall>x. v \<noteq> VFloat64 x) \<Longrightarrow>
   compareChecks d (c(k \<mapsto> v)) = compareChecks d (c(k := None))
   \<and> compareConditions d (c(k \<mapsto> v)) = compareConditions d (c(k := None))
   \<and> (k = ''moisture'' \<longrightarrow>
        \<not> mentions ''**Soil Moisture'' (compareConditions_pieces d (c(k \<mapsto> v))))
   \<and> (k = ''temperature'' \<longrightarrow>
        \<not> mentions ''**Temperature'' (compareConditions_pieces d (c(k \<mapsto> v))))
   \<and> (k = ''light_lux'' \<longrightarrow> \<not> mentions ''**Light'' (compareConditions_pieces d (c(k \<mapsto> v))))
   \<and> (k = ''humidity'' \<longrightarrow> \<not> mentions ''**Humidity'' (compareConditions_pieces d (c(k \<mapsto> v))))
   \<and> prefix [Lit ''# Condition Analysis for '', ArgS (Alias d), Lit ''\<newline>\<newline>'']
       (compareConditions_pieces d (c(k \<mapsto> v)))"
proof -
  assume v: "\<forall>x. v \<noteq> VFloat64 x"
  then have none: "asFloat64 (Some v) = None"
    by (cases v) (simp_all add: asFloat64_def)
  then have same: "asFloat64 ((c(k \<mapsto> v)) key) = asFloat64 ((c(k := None)) key)" for key
    by (simp add: asFloat64_def)
  have checks: "compareChecks d (c(k \<mapsto> v)) = compareChecks d (c(k := None))"
    by (rule compareChecks_cong) (rule same)
  then have "compareConditions d (c(k \<mapsto> v)) = compareConditions d (c(k := None))"
    by (simp add: compareConditions_def compareConditions_pieces_def)
  moreover have "prefix [Lit ''# Condition Analysis for '', ArgS (Alias d), Lit ''\<newline>\<newline>'']
       (compareConditions_pieces d (c(k \<mapsto> v)))"
    by (simp add: compareConditions_pieces_def compareOutput_prefix split: prod.split)
  ultimately show ?thesis
    using checks none by (simp add: compare_mentions check_no_reading)
qed

theorem non_numeric_reading_skipped_witness:
  "(\<forall>x. VString ''high'' \<noteq> VFloat64 x)
   \<and> compareChecks exampleDetails (idealReading(''moisture'' \<mapsto> VString ''high''))
       = compareChecks exampleDetails (idealReading(''moisture'' := None))
   \<and> compareConditions exampleDetails (idealReading(''moisture'' \<mapsto> VString ''high''))
       = compareConditions exampleDetails (idealReading(''moisture'' := None))
   \<and> \<not> mentions ''**Soil Moisture''
         (compareConditions_pieces exampleDetails (idealReading(''moisture'' \<mapsto> VString ''high'')))
   \<and> mentions ''**Soil Moisture'' (compareConditions_pieces exampleDetails idealReading)"
proof -
  have "checkMoisture exampleDetails idealReading ([], []) \<noteq> ([], [])"
    by (simp add: checkMoisture_def readings asFloat64_def exampleDetails_def fgt_def
        float64_of_int_examples)
  then have "mentions ''**Soil Moisture'' (compareConditions_pieces exampleDetails idealReading)"
    by (simp add: compare_mentions)
  then show ?thesis
    using non_numeric_reading_skipped [of "VString ''high''" exampleDetails idealReading "''moisture''"]
    by simp
qed

section \<open>Missing parameters of a tool call\<close>

lemma RequireString_missing:
  "\<not> (\<exists>s. GetArguments request key = Some (VString s)) \<Longrightarrow> \<exists>err. RequireString request key = Inl err"
  by (auto simp: RequireString_def split: option.splits go_value.splits)


text \<open>
  C9. A call of a tool without its required parameter gets an error result and a \<open>nil\<close>
  error: \<open>search_plants\<close> without a string under \<open>query\<close>; \<open>get_plant_care\<close>,
  \<open>get_care_summary\<close> and \<open>compare_conditions\<close> without a string under \<open>pid\<close>;
  \<open>compare_conditions\<close> without an object under \<open>current_conditions\<close>. The result is
  built by \<open>NewToolResultError\<close>, which sets \<open>IsError\<close>. No handler returns a Go error on
  any path.
\<close>

theorem missing_parameter_error_result:
  "(\<not> (\<exists>s. GetArguments request ''query'' = Some (VString s)) \<longrightarrow>
      handleSearchPlants ext request =
        (NewToolResultError ''query parameter is required and must be a string'', None))
   \<and> (\<not> (\<exists>s. GetArguments request ''pid'' = Some (VString s)) \<longrightarrow>
      handleGetPlantCare ext defaultLang request =
        (NewToolResultError ''pid parameter is required and must be a string'', None)
      \<and> handleGetCareSummary ext defaultLang request =
        (NewToolResultError ''pid parameter is required and must be a string'', None)
      \<and> handleCompareConditions ext defaultLang request =
        (NewToolResultError ''pid parameter is required and must be a string'', None))
   \<and> (\<not> (\<exists>conditions. GetArguments request ''current_conditions'' = Some (VMap conditions)) \<longrightarrow>
      (\<exists>text. handleCompareConditions ext defaultLang request = (NewToolResultError text, None)))
   \<and> (\<forall>text. IsError (NewToolResultError text))
   \<and> snd (handleSearchPlants ext request) = None
   \<and> snd (handleGetPlantCare ext defaultLang request) = None
   \<and> snd (handleGetCareSummary ext defaultLang request) = None
   \<and> snd (handleCompareConditions ext defaultLang request) = None"
proof (intro conjI impI)
  assume "\<not> (\<exists>s. GetArguments request ''query'' = Some (VString s))"
  from RequireString_missing [OF this]
  show "handleSearchPlants ext request =
        (NewToolResultError ''query parameter is required and must be a string'', None)"
    by (auto simp: handleSearchPlants_def)
next
  assume "\<not> (\<exists>s. GetArguments request ''pid'' = Some (VString s))"
  note e = RequireString_missing [OF this]
  from e show "handleGetPlantCare ext defaultLang request =
        (NewToolResultError ''pid parameter is required and must be a string'', None)"
    by (auto simp: handleGetPlantCare_def)
  from e show "handleGetCareSummary ext defaultLang request =
        (NewToolResultError ''pid parameter is required and must be a string'', None)"
    by (auto simp: handleGetCareSummary_def)
  from e show "handleCompareConditions ext defaultLang request =
        (NewToolResultError ''pid parameter is required and must be a string'', None)"
    by (auto simp: handleCompareConditions_def)
next
  assume "\<not> (\<exists>conditions. GetArguments request ''current_conditions'' = Some (VMap conditions))"
  then show "\<exists>text. handleCompareConditions ext defaultLang request = (NewToolResultError text, None)"
    by (auto simp: handleCompareConditions_def split: sum.splits option.splits go_value.splits)
next
  show "\<forall>text. IsError (NewToolResultError text)"
    by (simp add: NewToolResultError_def)
next
  show "snd (handleSearchPlants ext request) = None"
    by (simp add: handleSearchPlants_def Let_def split: sum.splits option.splits)
  show "snd (handleGetPlantCare ext defaultLang request) = None"
    by (simp add: handleGetPlantCare_def Let_def split: sum.splits option.splits)
  show "snd (handleGetCareSummary ext defaultLang request) = None"
    by (simp add: handleGetCareSummary_def Let_def split: sum.splits option.splits)
  show "snd (handleCompareConditions ext defaultLang request) = None"
    by (simp add: handleCompareConditions_def Let_def
        split: sum.splits option.splits go_value.splits)
qed

theorem missing_parameter_error_result_witness:
  "\<not> (\<exists>s. GetArguments searchWithoutQuery ''query'' = Some (VString s))
   \<and> handleSearchPlants failingCollaborators searchWithoutQuery =
        (NewToolResultError ''query parameter is required and must be a string'', None)
   \<and> IsError (fst (handleSearchPlants failingCollaborators searchWithoutQuery))
   \<and> \<not> (\<exists>conditions. GetArguments compareWithoutConditions ''current_conditions''
           = Some (VMap conditions))
   \<and> GetArguments compareWithoutConditions ''pid'' = Some (VString ''monstera-deliciosa'')
   \<and> handleCompareConditions failingCollaborators ''en'' compareWithoutConditions =
        (NewToolResultError ''current_conditions parameter is required and must be an object'',
         None)"
proof -
  have a: "\<not> (\<exists>s. GetArguments searchWithoutQuery ''query'' = Some (VString s))"
    by (simp add: GetArguments_def searchWithoutQuery_def)
  have b: "\<not> (\<exists>conditions. GetArguments compareWithoutConditions ''current_conditions''
           = Some (VMap conditions))"
    by (simp add: GetArguments_def compareWithoutConditions_def)
  have c: "GetArguments compareWithoutConditions ''pid'' = Some (VString ''monstera-deliciosa'')"
    by (simp add: GetArguments_def compareWithoutConditions_def)
  from b c have d: "handleCompareConditions failingCollaborators ''en'' compareWithoutConditions =
        (NewToolResultError ''current_conditions parameter is required and must be an object'',
         None)"
    by (auto simp: handleCompareConditions_def RequireString_def split: option.splits go_value.splits)
  from missing_parameter_error_result [of searchWithoutQuery failingCollaborators "''en''"] a b c d
  show ?thesis by simp
qed


section \<open>Authentication in the configuration\<close>

text \<open>
  C10, as amended. When reading the configuration file does not fail (no path is given,
  or \<open>ReadInConfig\<close> returns no error other than ``file not found''), \<open>LoadConfig\<close> returns
  a configuration if and only if exactly one authentication method is supplied. It
  returns the error ``authentication required'' when the API key is empty and the OAuth2
  pair is not complete, the error ``multiple authentication methods'' when the key is
  not empty and the pair is complete, and with a key and an incomplete pair it returns
  the configuration, from which \<open>New\<close> takes the API key.
\<close>

theorem LoadConfig_one_method:
  "configPath = [] \<or> (\<forall>err. ReadInConfig v \<noteq> OtherReadError err) \<Longrightarrow>
   (let hasAPIKey = (ViperGetString v ''api_key'' \<noteq> []);
        hasOAuth2 = (ViperGetString v ''client_id'' \<noteq> [] \<and> ViperGetString v ''client_secret'' \<noteq> [])
    in ((\<exists>config. LoadConfig configPath v = Inr config) \<longleftrightarrow> hasAPIKey \<noteq> hasOAuth2)
     \<and> (\<not> hasAPIKey \<and> \<not> hasOAuth2 \<longrightarrow>
          LoadConfig configPath v =
            Inl ''authentication required: provide either api_key OR (client_id and client_secret)'')
     \<and> (hasAPIKey \<and> hasOAuth2 \<longrightarrow>
          LoadConfig configPath v =
            Inl ''multiple authentication methods provided: use either api_key OR OAuth2, not both'')
     \<and> (hasAPIKey \<and> \<not> hasOAuth2 \<longrightarrow>
          (\<exists>config. LoadConfig configPath v = Inr config
             \<and> APIKey config = ViperGetString v ''api_key''
             \<and> authOptionOf config = WithAPIKey (ViperGetString v ''api_key''))))"
proof -
  assume "configPath = [] \<or> (\<forall>err. ReadInConfig v \<noteq> OtherReadError err)"
  then have read: "(if configPath \<noteq> [] then
              (case ReadInConfig v of
                 OtherReadError err \<Rightarrow> Some (''read config file: '' @ err)
               | _ \<Rightarrow> None)
            else None) = None"
    by (auto split: readOutcome.splits)
  show ?thesis
    unfolding LoadConfig_def read
    by (auto simp: Let_def authOptionOf_def)
qed


text \<open>
  The claim as stated does not hold for every call: with a path to a file that cannot be
  read, \<open>LoadConfig\<close> returns the error of reading it, although exactly one method (an
  API key from the environment) is supplied.
\<close>

theorem LoadConfig_one_method_counterexample:
  "ViperGetString unreadableFile ''api_key'' \<noteq> []
   \<and> ViperGetString unreadableFile ''client_id'' = []
   \<and> ViperGetString unreadableFile ''client_secret'' = []
   \<and> LoadConfig ''/missing.json'' unreadableFile =
       Inl ''read config file: open /missing.json: no such file or directory''"
  by (simp add: LoadConfig_def unreadableFile_def)

theorem LoadConfig_one_method_witness:
  "(\<forall>err. ReadInConfig keyAndClientId \<noteq> OtherReadError err)
   \<and> ViperGetString keyAndClientId ''api_key'' = ''secret-key''
   \<and> ViperGetString keyAndClientId ''client_id'' = ''client''
   \<and> ViperGetString keyAndClientId ''client_secret'' = []
   \<and> (\<exists>config. LoadConfig ''/etc/openplantbook.json'' keyAndClientId = Inr config
        \<and> APIKey config = ''secret-key'' \<and> authOptionOf config = WithAPIKey ''secret-key'')"
proof -
  have r: "\<forall>err. ReadInConfig keyAndClientId \<noteq> OtherReadError err"
    by (simp add: keyAndClientId_def)
  then have "''/etc/openplantbook.json'' = [] \<or> (\<forall>err. ReadInConfig keyAndClientId \<noteq> OtherReadError err)"
    by simp
  from LoadConfig_one_method [OF this] r show ?thesis
    by (simp add: keyAndClientId_def Let_def)
qed

end
